theory Spec2Isabelle
  imports Main "HOL-Library.Word"
begin

unbundle bit_operations_syntax

section \<open>Python values and string primitives used by \<^verbatim>\<open>searx/botdetection/_helpers.py\<close>\<close>

text \<open>
  Header values reach the module as Python \<^verbatim>\<open>str\<close> objects whose code points are
  below 256 (the WSGI layer decodes header bytes as latin-1), so a header value is a
  \<^typ>\<open>string\<close> and a \<^typ>\<open>char\<close> is read as its code point.  A header lookup
  \<^verbatim>\<open>request.headers.get(name)\<close> yields \<^verbatim>\<open>None\<close> or a \<^verbatim>\<open>str\<close>: a
  \<^typ>\<open>string option\<close>.
\<close>

datatype py_error = IndexError | ValueError

text \<open>Truth value of \<^verbatim>\<open>None\<close> or a \<^verbatim>\<open>str\<close>: only a non-empty string is true.\<close>

definition truthy :: "string option \<Rightarrow> bool" where
  "truthy v = (case v of None \<Rightarrow> False | Some s \<Rightarrow> s \<noteq> [])"

text \<open>\<^verbatim>\<open>v or d\<close> where \<^verbatim>\<open>d\<close> is a string.\<close>

definition or_str :: "string option \<Rightarrow> string \<Rightarrow> string" where
  "or_str v d = (case v of None \<Rightarrow> d | Some s \<Rightarrow> if s \<noteq> [] then s else d)"

text \<open>\<^verbatim>\<open>str(v)\<close> as an f-string renders it.\<close>

definition py_str :: "string option \<Rightarrow> string" where
  "py_str v = (case v of None \<Rightarrow> ''None'' | Some s \<Rightarrow> s)"

text \<open>\<^verbatim>\<open>str.isspace\<close> on the code points below 256.\<close>

definition py_isspace :: "char \<Rightarrow> bool" where
  "py_isspace c =
     (let n = (of_char c :: nat)
      in (9 \<le> n \<and> n \<le> 13) \<or> (28 \<le> n \<and> n \<le> 32) \<or> n = 133 \<or> n = 160)"

text \<open>\<^verbatim>\<open>s.strip()\<close>: whitespace removed at both ends.\<close>

definition strip :: "string \<Rightarrow> string" where
  "strip s = rev (dropWhile py_isspace (rev (dropWhile py_isspace s)))"

text \<open>\<^verbatim>\<open>s.split(sep)\<close> for a one-character separator; the result is never empty.\<close>

fun str_split :: "char \<Rightarrow> string \<Rightarrow> string list" where
  "str_split sep [] = [[]]"
| "str_split sep (c # cs) =
     (if c = sep then [] # str_split sep cs
      else (case str_split sep cs of
              [] \<Rightarrow> [[c]]
            | p # ps \<Rightarrow> (c # p) # ps))"

text \<open>\<^verbatim>\<open>sep.join(parts)\<close>.\<close>

fun str_join :: "string \<Rightarrow> string list \<Rightarrow> string" where
  "str_join sep [] = []"
| "str_join sep [p] = p"
| "str_join sep (p # q # ps) = p @ sep @ str_join sep (q # ps)"

text \<open>
  \<^verbatim>\<open>xs[i]\<close>: a negative index counts from the end, an index outside the list raises
  \<^verbatim>\<open>IndexError\<close>.
\<close>

definition py_index :: "'a list \<Rightarrow> int \<Rightarrow> py_error + 'a" where
  "py_index xs i =
     (let j = (if i < 0 then i + int (length xs) else i)
      in if j < 0 \<or> int (length xs) \<le> j then Inl IndexError else Inr (xs ! nat j))"

text \<open>
  \<^verbatim>\<open>fmt % args\<close> for the conversions the module uses: every \<^verbatim>\<open>%s\<close> takes the next
  argument (all arguments here are strings).  Too few or too many arguments, or another
  conversion, give \<open>None\<close> (Python raises; the module never does that).
\<close>

fun py_format :: "string \<Rightarrow> string list \<Rightarrow> string option" where
  "py_format [] args = (if args = [] then Some [] else None)"
| "py_format (c # cs) args =
     (if c = CHR ''%'' then
        (case cs of
           [] \<Rightarrow> None
         | d # ds \<Rightarrow>
            (case args of
               [] \<Rightarrow> None
             | a # as \<Rightarrow> if d = CHR ''s'' then map_option ((@) a) (py_format ds as) else None))
      else map_option ((#) c) (py_format cs args))"

section \<open>The request, the logger and the module state\<close>

text \<open>
  The fields of \<^verbatim>\<open>flask.Request\<close> the module reads.  \<open>req_form\<close> is the text
  \<^verbatim>\<open>str(request.form)\<close>, produced by the web framework.
\<close>

record request =
  req_path :: string
  req_headers :: "string \<rightharpoonup> string"
  req_form :: string
  req_remote_addr :: "string option"

datatype level = DEBUG | WARNING | ERROR

text \<open>A call \<^verbatim>\<open>logger.<level>(msg, *args)\<close>: the level, the message and its arguments.\<close>

type_synonym log_record = "level \<times> string \<times> string list"

text \<open>\<^verbatim>\<open>LogRecord.getMessage\<close>: the message is formatted only when there are arguments.\<close>

definition getMessage :: "log_record \<Rightarrow> string option" where
  "getMessage r = (case r of (_, msg, args) \<Rightarrow> if args = [] then Some msg else py_format msg args)"

text \<open>
  The state the module touches: the module-level list \<^verbatim>\<open>_logged_errors\<close> and the records
  handed to the \<^verbatim>\<open>botdetection\<close> logger, oldest first.
\<close>

record state =
  logged_errors :: "string list"
  logger :: "log_record list"

text \<open>The state when the module has just been imported.\<close>

definition initial_state :: state where
  "initial_state = \<lparr>logged_errors = [], logger = []\<rparr>"

definition logger_log :: "level \<Rightarrow> string \<Rightarrow> string list \<Rightarrow> state \<Rightarrow> state" where
  "logger_log lvl msg args st = st\<lparr>logger := logger st @ [(lvl, msg, args)]\<rparr>"

text \<open>The records a step from \<open>st\<close> to \<open>st'\<close> handed to the logger.\<close>

definition emitted :: "state \<Rightarrow> state \<Rightarrow> log_record list" where
  "emitted st st' = drop (length (logger st)) (logger st')"

section \<open>\<^verbatim>\<open>_log_error_only_once\<close>\<close>

definition log_error_only_once :: "string \<Rightarrow> state \<Rightarrow> state" where
  "log_error_only_once err_msg st =
     (if err_msg \<notin> set (logged_errors st)
      then (logger_log ERROR err_msg [] st)\<lparr>logged_errors := logged_errors st @ [err_msg]\<rparr>
      else st)"

section \<open>\<^verbatim>\<open>get_real_ip\<close>\<close>

text \<open>
  Lines 119 to 121: the header is split at commas, every entry is stripped, and the entry at
  index \<^verbatim>\<open>-min(len(forwarded_for), x_for)\<close> is taken.  \<open>x_for\<close> is the integer
  \<^verbatim>\<open>get_cfg()['real_ip.x_for']\<close>.
\<close>

definition forwarded_for_entries :: "string \<Rightarrow> string list" where
  "forwarded_for_entries h = map strip (str_split CHR '','' h)"

definition select_forwarded_for :: "string \<Rightarrow> int \<Rightarrow> py_error + string" where
  "select_forwarded_for h x_for =
     (let forwarded_for = forwarded_for_entries h
      in py_index forwarded_for (- min (int (length forwarded_for)) x_for))"

definition msg_xff_not_set :: string where
  "msg_xff_not_set = ''X-Forwarded-For header is not set!''"

definition msg_real_ip_not_set :: string where
  "msg_real_ip_not_set = ''X-Real-IP header is not set!''"

definition msg_real_ip_vs_xff :: string where
  "msg_real_ip_vs_xff = ''IP from X-Real-IP (%s) is not equal to IP from X-Forwarded-For (%s)''"

definition msg_wsgi_vs_xff :: string where
  "msg_wsgi_vs_xff = ''IP from WSGI environment (%s) is not equal to IP from X-Forwarded-For (%s)''"

definition msg_wsgi_vs_real_ip :: string where
  "msg_wsgi_vs_real_ip = ''IP from WSGI environment (%s) is not equal to IP from X-Real-IP (%s)''"

text \<open>
  Lines 123 to 137, after \<open>forwarded_for\<close> has its final value: the second one-time
  diagnostic, the three pairwise checks and the returned value.
\<close>

definition cross_check :: "string option \<Rightarrow> string option \<Rightarrow> string option \<Rightarrow> state \<Rightarrow> string \<times> state" where
  "cross_check forwarded_for real_ip remote_addr st =
     (let st1 = (if \<not> truthy real_ip then log_error_only_once msg_real_ip_not_set st else st);
          st2 = (if truthy forwarded_for \<and> truthy real_ip \<and> forwarded_for \<noteq> real_ip
                 then logger_log WARNING msg_real_ip_vs_xff [py_str real_ip, py_str forwarded_for] st1
                 else st1);
          st3 = (if truthy forwarded_for \<and> truthy remote_addr \<and> forwarded_for \<noteq> remote_addr
                 then logger_log WARNING msg_wsgi_vs_xff [py_str remote_addr, py_str forwarded_for] st2
                 else st2);
          st4 = (if truthy real_ip \<and> truthy remote_addr \<and> real_ip \<noteq> remote_addr
                 then logger_log WARNING msg_wsgi_vs_real_ip [py_str remote_addr, py_str real_ip] st3
                 else st3)
      in (or_str forwarded_for (or_str real_ip (or_str remote_addr ''0.0.0.0'')), st4))"

text \<open>
  The whole function.  The only statement that can raise is the indexing of line 121; it
  comes before any logging of that branch, so an exception leaves the state as it was.
\<close>

definition get_real_ip :: "request \<Rightarrow> int \<Rightarrow> state \<Rightarrow> py_error + (string \<times> state)" where
  "get_real_ip request x_for st =
     (let forwarded_for = req_headers request ''X-Forwarded-For'';
          real_ip = req_headers request ''X-Real-IP'';
          remote_addr = req_remote_addr request
      in if \<not> truthy forwarded_for
         then Inr (cross_check forwarded_for real_ip remote_addr
                     (log_error_only_once msg_xff_not_set st))
         else (case select_forwarded_for (py_str forwarded_for) x_for of
                 Inl e \<Rightarrow> Inl e
               | Inr entry \<Rightarrow> Inr (cross_check (Some entry) real_ip remote_addr st)))"

section \<open>\<^verbatim>\<open>dump_request\<close>\<close>

text \<open>
  The nested concatenation of f-strings, as the source writes it.  A header that is not set
  is interpolated as \<^verbatim>\<open>str(None)\<close>.
\<close>

definition dump_request :: "request \<Rightarrow> string" where
  "dump_request request =
     ((((((((req_path request @ '' || X-Forwarded-For: '' @ py_str (req_headers request ''X-Forwarded-For'')
             @ '' || X-Real-IP: '' @ py_str (req_headers request ''X-Real-IP''))
            @ '' || form: '' @ req_form request)
           @ '' || Accept: '' @ py_str (req_headers request ''Accept''))
          @ '' || Accept-Language: '' @ py_str (req_headers request ''Accept-Language''))
         @ '' || Accept-Encoding: '' @ py_str (req_headers request ''Accept-Encoding''))
        @ '' || Content-Type: '' @ py_str (req_headers request ''Content-Type''))
       @ '' || Content-Length: '' @ py_str (req_headers request ''Content-Length''))
      @ '' || Connection: '' @ py_str (req_headers request ''Connection''))
     @ '' || User-Agent: '' @ py_str (req_headers request ''User-Agent'')"

text \<open>
  The same line described as the specification does: an ordered list of fields, joined by
  the delimiter, where every header field is its label and the value or the marker.
\<close>

definition dump_header_names :: "string list" where
  "dump_header_names =
     [''Accept'', ''Accept-Language'', ''Accept-Encoding'', ''Content-Type'',
      ''Content-Length'', ''Connection'', ''User-Agent'']"

definition dump_field :: "request \<Rightarrow> string \<Rightarrow> string" where
  "dump_field request name =
     name @ '': '' @ (case req_headers request name of None \<Rightarrow> ''None'' | Some v \<Rightarrow> v)"

definition dump_fields :: "request \<Rightarrow> string list" where
  "dump_fields request =
     [req_path request, dump_field request ''X-Forwarded-For'', dump_field request ''X-Real-IP'',
      ''form: '' @ req_form request]
     @ map (dump_field request) dump_header_names"

section \<open>The standard library's \<^verbatim>\<open>ipaddress\<close> module, as far as the module uses it\<close>

text \<open>
  An address object holds its integer; an IPv6 address also holds an optional scope
  identifier (the text after \<^verbatim>\<open>%\<close>).  A network object holds its network address and its
  prefix length.
\<close>

datatype address = IPv4Address "32 word" | IPv6Address "128 word" "string option"

datatype network = IPv4Network "32 word" nat | IPv6Network "128 word" "string option" nat

definition version :: "address \<Rightarrow> nat" where
  "version a = (case a of IPv4Address _ \<Rightarrow> 4 | IPv6Address _ _ \<Rightarrow> 6)"

text \<open>\<^verbatim>\<open>int(address)\<close> and \<^verbatim>\<open>address.max_prefixlen\<close>.\<close>

definition address_int :: "address \<Rightarrow> int" where
  "address_int a = (case a of IPv4Address ip \<Rightarrow> uint ip | IPv6Address ip _ \<Rightarrow> uint ip)"

definition max_prefixlen :: "address \<Rightarrow> nat" where
  "max_prefixlen a = (case a of IPv4Address _ \<Rightarrow> 32 | IPv6Address _ _ \<Rightarrow> 128)"

subsection \<open>Numbers as text\<close>

definition digit_char :: "nat \<Rightarrow> char" where
  "digit_char d = ''0123456789abcdef'' ! d"

text \<open>\<^verbatim>\<open>str(n)\<close> and \<^verbatim>\<open>'%x' % n\<close> for a natural number, \<^verbatim>\<open>str(i)\<close> for an integer.\<close>

fun str_nat :: "nat \<Rightarrow> string" where
  "str_nat n = (if n < 10 then [digit_char n] else str_nat (n div 10) @ [digit_char (n mod 10)])"

fun hex_nat :: "nat \<Rightarrow> string" where
  "hex_nat n = (if n < 16 then [digit_char n] else hex_nat (n div 16) @ [digit_char (n mod 16)])"

definition str_int :: "int \<Rightarrow> string" where
  "str_int i = (if i < 0 then CHR ''-'' # str_nat (nat (- i)) else str_nat (nat i))"

definition is_digit :: "char \<Rightarrow> bool" where
  "is_digit c = (let n = (of_char c :: nat) in 48 \<le> n \<and> n \<le> 57)"

definition hex_value :: "char \<Rightarrow> nat option" where
  "hex_value c =
     (let n = (of_char c :: nat)
      in if 48 \<le> n \<and> n \<le> 57 then Some (n - 48)
         else if 65 \<le> n \<and> n \<le> 70 then Some (n - 55)
         else if 97 \<le> n \<and> n \<le> 102 then Some (n - 87)
         else None)"

text \<open>\<^verbatim>\<open>int(s, 10)\<close> on a string of decimal digits.\<close>

definition int_of_digits :: "string \<Rightarrow> nat" where
  "int_of_digits s = foldl (\<lambda>acc c. 10 * acc + (of_char c - 48)) 0 s"

subsection \<open>Parsing an address\<close>

text \<open>
  \<^verbatim>\<open>_BaseV4._parse_octet\<close>: a non-empty string of at most three ASCII digits, without a
  leading zero unless it is \<^verbatim>\<open>0\<close>, denoting at most 255.  \<open>None\<close> stands for the
  \<^verbatim>\<open>ValueError\<close>.
\<close>

definition parse_octet :: "string \<Rightarrow> nat option" where
  "parse_octet octet_str =
     (if octet_str = [] then None
      else if \<not> list_all is_digit octet_str then None
      else if length octet_str > 3 then None
      else if octet_str \<noteq> ''0'' \<and> hd octet_str = CHR ''0'' then None
      else let octet_int = int_of_digits octet_str
           in if octet_int > 255 then None else Some octet_int)"

text \<open>\<^verbatim>\<open>_BaseV4._ip_int_from_string\<close>: exactly four octets, combined big-endian.\<close>

definition ipv4_int_from_string :: "string \<Rightarrow> nat option" where
  "ipv4_int_from_string ip_str =
     (if ip_str = [] then None
      else let octets = str_split CHR ''.'' ip_str
           in if length octets \<noteq> 4 then None
              else map_option (foldl (\<lambda>acc b. 256 * acc + b) 0) (those (map parse_octet octets)))"

text \<open>\<^verbatim>\<open>IPv4Address(s)\<close> for a string; \<open>None\<close> stands for \<^verbatim>\<open>AddressValueError\<close>.\<close>

definition IPv4Address_of_str :: "string \<Rightarrow> address option" where
  "IPv4Address_of_str addr_str =
     (if CHR ''/'' \<in> set addr_str then None
      else map_option (\<lambda>n. IPv4Address (of_nat n)) (ipv4_int_from_string addr_str))"

text \<open>
  \<^verbatim>\<open>_BaseV6._parse_hextet\<close>: only hexadecimal digits, at most four of them, and
  \<^verbatim>\<open>int(s, 16)\<close> rejects the empty string.
\<close>

definition parse_hextet :: "string \<Rightarrow> nat option" where
  "parse_hextet hextet_str =
     (case those (map hex_value hextet_str) of
        None \<Rightarrow> None
      | Some ds \<Rightarrow>
          if length hextet_str > 4 then None
          else if hextet_str = [] then None
          else Some (foldl (\<lambda>acc d. 16 * acc + d) 0 ds))"

text \<open>
  The two loops at the end of \<^verbatim>\<open>_BaseV6._ip_int_from_string\<close>: every part shifts the
  integer by 16 bits and adds its hextet.
\<close>

definition add_hextets :: "string list \<Rightarrow> nat option \<Rightarrow> nat option" where
  "add_hextets parts ip_int =
     fold (\<lambda>p acc. case acc of
                     None \<Rightarrow> None
                   | Some n \<Rightarrow> map_option (\<lambda>h. 65536 * n + h) (parse_hextet p))
          parts ip_int"

definition hextets_to_int :: "string list \<Rightarrow> nat \<Rightarrow> string list \<Rightarrow> nat option" where
  "hextets_to_int hi parts_skipped lo =
     add_hextets lo (map_option (\<lambda>n. n * 2 ^ (16 * parts_skipped)) (add_hextets hi (Some 0)))"

text \<open>
  \<^verbatim>\<open>_BaseV6._ip_int_from_string\<close>.  The parts between colons; an IPv4-style last part is
  replaced by its two hextets; the one position of \<^verbatim>\<open>::\<close> among the inner parts
  (\<open>skip_index\<close>); the number of parts before and after it.
\<close>

definition ipv6_parts :: "string \<Rightarrow> string list option" where
  "ipv6_parts ip_str =
     (let parts = str_split CHR '':'' ip_str
      in if length parts < 3 then None
         else if CHR ''.'' \<in> set (last parts) then
           (case IPv4Address_of_str (last parts) of
              Some (IPv4Address ipv4_int) \<Rightarrow>
                Some (butlast parts
                      @ [hex_nat (unat (take_bit 16 (drop_bit 16 ipv4_int))),
                         hex_nat (unat (take_bit 16 ipv4_int))])
            | _ \<Rightarrow> None)
         else Some parts)"

definition ipv6_int_from_string :: "string \<Rightarrow> nat option" where
  "ipv6_int_from_string ip_str =
     (if ip_str = [] then None
      else case ipv6_parts ip_str of
        None \<Rightarrow> None
      | Some parts \<Rightarrow>
          if length parts > 9 then None
          else (case filter (\<lambda>i. parts ! i = []) [1 ..< length parts - 1] of
                  [] \<Rightarrow>
                    if length parts \<noteq> 8 then None
                    else if hd parts = [] then None
                    else if last parts = [] then None
                    else hextets_to_int parts 0 []
                | [skip_index] \<Rightarrow>
                    (let parts_hi0 = skip_index;
                         parts_lo0 = length parts - skip_index - 1;
                         parts_hi = (if hd parts = [] then parts_hi0 - 1 else parts_hi0);
                         parts_lo = (if last parts = [] then parts_lo0 - 1 else parts_lo0)
                     in if hd parts = [] \<and> parts_hi \<noteq> 0 then None
                        else if last parts = [] \<and> parts_lo \<noteq> 0 then None
                        else if 8 < parts_hi + parts_lo + 1 then None
                        else hextets_to_int (take parts_hi parts) (8 - (parts_hi + parts_lo))
                               (drop (length parts - parts_lo) parts))
                | _ \<Rightarrow> None))"

text \<open>\<^verbatim>\<open>_BaseV6._split_scope_id\<close>: the text after the first \<^verbatim>\<open>%\<close>, if there is one.\<close>

definition split_scope_id :: "string \<Rightarrow> (string \<times> string option) option" where
  "split_scope_id ip_str =
     (let addr = takeWhile (\<lambda>c. c \<noteq> CHR ''%'') ip_str;
          rest = dropWhile (\<lambda>c. c \<noteq> CHR ''%'') ip_str
      in if rest = [] then Some (addr, None)
         else if tl rest = [] \<or> CHR ''%'' \<in> set (tl rest) then None
         else Some (addr, Some (tl rest)))"

definition IPv6Address_of_str :: "string \<Rightarrow> address option" where
  "IPv6Address_of_str addr_str =
     (if CHR ''/'' \<in> set addr_str then None
      else case split_scope_id addr_str of
        None \<Rightarrow> None
      | Some (addr, scope_id) \<Rightarrow>
          map_option (\<lambda>n. IPv6Address (of_nat n) scope_id) (ipv6_int_from_string addr))"

text \<open>
  \<^verbatim>\<open>ipaddress.ip_address(s)\<close>: an IPv4 address if the string is one, else an IPv6 address
  if it is one, else \<^verbatim>\<open>ValueError\<close> (here \<open>None\<close>).  A string is a syntactically valid
  address exactly when this succeeds.
\<close>

definition ip_address :: "string \<Rightarrow> address option" where
  "ip_address s = (case IPv4Address_of_str s of Some a \<Rightarrow> Some a | None \<Rightarrow> IPv6Address_of_str s)"

definition valid_address :: "string \<Rightarrow> bool" where
  "valid_address s = (ip_address s \<noteq> None)"

subsection \<open>Addresses and networks as text\<close>

text \<open>\<^verbatim>\<open>_BaseV4._string_from_ip_int\<close>: the four bytes in decimal, joined by dots.\<close>

definition ipv4_string_from_ip_int :: "32 word \<Rightarrow> string" where
  "ipv4_string_from_ip_int ip_int =
     str_join ''.'' (map (\<lambda>k. str_nat (unat (take_bit 8 (drop_bit k ip_int)))) [24, 16, 8, 0])"

text \<open>
  \<^verbatim>\<open>_BaseV6._compress_hextets\<close>.  The loop keeps the start and length of the current run
  of \<^verbatim>\<open>'0'\<close> hextets and of the best run so far (a start of \<open>-1\<close> means none); a later
  run replaces the best one only if it is strictly longer.
\<close>

fun compress_scan :: "string list \<Rightarrow> int \<Rightarrow> int \<times> nat \<times> int \<times> nat \<Rightarrow> int \<times> nat" where
  "compress_scan [] index (best_start, best_len, start, len) = (best_start, best_len)"
| "compress_scan (hextet # hextets) index (best_start, best_len, start, len) =
     (if hextet = ''0'' then
        (let len' = len + 1;
             start' = (if start = - 1 then index else start)
         in if len' > best_len
            then compress_scan hextets (index + 1) (start', len', start', len')
            else compress_scan hextets (index + 1) (best_start, best_len, start', len'))
      else compress_scan hextets (index + 1) (best_start, best_len, - 1, 0))"

definition compress_hextets :: "string list \<Rightarrow> string list" where
  "compress_hextets hextets =
     (case compress_scan hextets 0 (- 1, 0, - 1, 0) of
        (best_doublecolon_start, best_doublecolon_len) \<Rightarrow>
          if best_doublecolon_len > 1 then
            (let best_doublecolon_end = nat best_doublecolon_start + best_doublecolon_len;
                 hextets1 = (if best_doublecolon_end = length hextets then hextets @ [[]] else hextets);
                 hextets2 = take (nat best_doublecolon_start) hextets1 @ [[]]
                            @ drop best_doublecolon_end hextets1
             in if best_doublecolon_start = 0 then [] # hextets2 else hextets2)
          else hextets)"

text \<open>\<^verbatim>\<open>_BaseV6._string_from_ip_int\<close>: eight hextets in hexadecimal, compressed, joined.\<close>

definition ipv6_string_from_ip_int :: "128 word \<Rightarrow> string" where
  "ipv6_string_from_ip_int ip_int =
     str_join '':''
       (compress_hextets
          (map (\<lambda>k. hex_nat (unat (take_bit 16 (drop_bit k ip_int))))
               [112, 96, 80, 64, 48, 32, 16, 0]))"

text \<open>\<^verbatim>\<open>str(address)\<close>; an IPv6 address with a scope identifier appends it after \<^verbatim>\<open>%\<close>.\<close>

definition str_address :: "address \<Rightarrow> string" where
  "str_address a =
     (case a of
        IPv4Address ip \<Rightarrow> ipv4_string_from_ip_int ip
      | IPv6Address ip scope_id \<Rightarrow>
          ipv6_string_from_ip_int ip
          @ (case scope_id of None \<Rightarrow> [] | Some s \<Rightarrow> if s = [] then [] else CHR ''%'' # s))"

definition network_address :: "network \<Rightarrow> address" where
  "network_address n =
     (case n of IPv4Network ip _ \<Rightarrow> IPv4Address ip | IPv6Network ip scope_id _ \<Rightarrow> IPv6Address ip scope_id)"

definition prefixlen :: "network \<Rightarrow> nat" where
  "prefixlen n = (case n of IPv4Network _ p \<Rightarrow> p | IPv6Network _ _ p \<Rightarrow> p)"

text \<open>\<^verbatim>\<open>network.compressed\<close>, which is \<^verbatim>\<open>'%s/%d' % (network_address, prefixlen)\<close>.\<close>

definition compressed :: "network \<Rightarrow> string" where
  "compressed n = str_address (network_address n) @ ''/'' @ str_nat (prefixlen n)"

subsection \<open>Building a network\<close>

text \<open>\<^verbatim>\<open>_ip_int_from_prefix\<close>: \<^verbatim>\<open>ALL_ONES ^ (ALL_ONES >> prefixlen)\<close>.\<close>

definition ip_int_from_prefix :: "nat \<Rightarrow> 'a::len word" where
  "ip_int_from_prefix p = (- 1) XOR drop_bit p (- 1)"

text \<open>
  \<^verbatim>\<open>ip_network(f"{address}/{prefix}", strict)\<close> for an address object and an integer prefix.
  The library splits the text at the slash and reads the two parts back: the first as the
  address it was printed from, the second as the prefix length, which it accepts when the
  decimal text denotes a number from 0 to the address width (32 or 128).  An IPv4 text is
  refused by \<^verbatim>\<open>IPv6Network\<close> and the other way round, so the version of the network is the
  version of the address, and every refusal surfaces as \<^verbatim>\<open>ValueError\<close>.  With host bits set,
  a strict construction raises and a non-strict one keeps the masked integer (and drops the
  scope identifier).  The reading back of the printed text is taken from the library here, not
  derived from the parser above.
\<close>

definition ip_network :: "address \<Rightarrow> int \<Rightarrow> bool \<Rightarrow> py_error + network" where
  "ip_network a prefix strict =
     (case a of
        IPv4Address ip \<Rightarrow>
          if \<not> (0 \<le> prefix \<and> prefix \<le> 32) then Inl ValueError
          else let netmask = ip_int_from_prefix (nat prefix)
               in if ip AND netmask \<noteq> ip
                  then (if strict then Inl ValueError
                        else Inr (IPv4Network (ip AND netmask) (nat prefix)))
                  else Inr (IPv4Network ip (nat prefix))
      | IPv6Address ip scope_id \<Rightarrow>
          if \<not> (0 \<le> prefix \<and> prefix \<le> 128) then Inl ValueError
          else let netmask = ip_int_from_prefix (nat prefix)
               in if ip AND netmask \<noteq> ip
                  then (if strict then Inl ValueError
                        else Inr (IPv6Network (ip AND netmask) None (nat prefix)))
                  else Inr (IPv6Network ip scope_id (nat prefix)))"

section \<open>\<^verbatim>\<open>get_network\<close> and \<^verbatim>\<open>too_many_requests\<close>\<close>

text \<open>
  The settings \<^verbatim>\<open>real_ip.ipv4_prefix\<close>, \<^verbatim>\<open>real_ip.ipv6_prefix\<close> and \<^verbatim>\<open>real_ip.x_for\<close> of the
  configuration, as the integers they hold.
\<close>

record config =
  real_ip_ipv4_prefix :: int
  real_ip_ipv6_prefix :: int
  real_ip_x_for :: int

definition get_network :: "address \<Rightarrow> config \<Rightarrow> py_error + network" where
  "get_network real_ip cfg =
     (let prefix = (if version real_ip = 6 then real_ip_ipv6_prefix cfg else real_ip_ipv4_prefix cfg)
      in ip_network real_ip prefix False)"

text \<open>
  The response \<^verbatim>\<open>flask.make_response(('Too Many Requests', 429))\<close>: its body and its status
  code.
\<close>

record response =
  body :: string
  status_code :: nat

definition too_many_requests :: "network \<Rightarrow> string \<Rightarrow> state \<Rightarrow> response \<times> state" where
  "too_many_requests network log_msg st =
     (\<lparr>body = ''Too Many Requests'', status_code = 429\<rparr>,
      logger_log DEBUG ''BLOCK %s: %s'' [compressed network, log_msg] st)"

section \<open>The resolver as the specification words it\<close>

text \<open>
  The chain-derived candidate: nothing when the header is absent or empty, otherwise the
  entry at index \<open>max 0 (n - x_for)\<close> of the stripped entries.
\<close>

definition spec_chain_candidate :: "request \<Rightarrow> int \<Rightarrow> string option" where
  "spec_chain_candidate request x_for =
     (case req_headers request ''X-Forwarded-For'' of
        None \<Rightarrow> None
      | Some h \<Rightarrow>
          if h = [] then None
          else let entries = map strip (str_split CHR '','' h)
               in Some (entries ! nat (max 0 (int (length entries) - x_for))))"

text \<open>The first candidate that is present and not empty, or the sentinel.\<close>

definition spec_first_non_empty :: "string option list \<Rightarrow> string" where
  "spec_first_non_empty cands =
     (case filter (\<lambda>s. s \<noteq> []) (List.map_filter id cands) of [] \<Rightarrow> ''0.0.0.0'' | s # _ \<Rightarrow> s)"

text \<open>
  One warning for a pair of candidates that are both present, both non-empty, and unequal;
  the three pairs in the order chain/secondary, chain/peer, secondary/peer.
\<close>

definition spec_pair_warning :: "string \<Rightarrow> string option \<Rightarrow> string option \<Rightarrow> log_record list" where
  "spec_pair_warning fmt x y =
     (if truthy x \<and> truthy y \<and> x \<noteq> y then [(WARNING, fmt, [py_str y, py_str x])] else [])"

definition spec_warnings :: "string option \<Rightarrow> string option \<Rightarrow> string option \<Rightarrow> log_record list" where
  "spec_warnings chain secondary peer =
     spec_pair_warning msg_real_ip_vs_xff chain secondary
     @ spec_pair_warning msg_wsgi_vs_xff chain peer
     @ spec_pair_warning msg_wsgi_vs_real_ip secondary peer"

definition is_warning :: "log_record \<Rightarrow> bool" where
  "is_warning r = (fst r = WARNING)"

text \<open>What a one-time diagnostic adds to the log in a given state.\<close>

definition once_records :: "string \<Rightarrow> state \<Rightarrow> log_record list" where
  "once_records err_msg st = (if err_msg \<in> set (logged_errors st) then [] else [(ERROR, err_msg, [])])"

text \<open>A request with the given headers and peer address, for the examples.\<close>

definition request_with :: "(string \<times> string) list \<Rightarrow> string option \<Rightarrow> request" where
  "request_with hs peer =
     \<lparr>req_path = ''/search'', req_headers = map_of hs, req_form = ''ImmutableMultiDict([])'',
      req_remote_addr = peer\<rparr>"

section \<open>Properties of \<^verbatim>\<open>get_real_ip\<close>: the entry taken from the proxy chain\<close>

lemma str_split_nonempty: "str_split sep s \<noteq> []"
  by (induction s) (auto split: list.splits)

lemma forwarded_for_entries_nonempty: "forwarded_for_entries h \<noteq> []"
  by (simp add: forwarded_for_entries_def str_split_nonempty)

lemma py_index_from_end:
  assumes "1 \<le> k" and "xs \<noteq> []"
  shows "py_index xs (- min (int (length xs)) k) = Inr (xs ! nat (max 0 (int (length xs) - k)))"
  using assms by (auto simp: py_index_def Let_def min_def max_def)

lemma select_forwarded_for_eq:
  assumes "1 \<le> x_for"
  shows "select_forwarded_for h x_for =
           Inr (forwarded_for_entries h ! nat (max 0 (int (length (forwarded_for_entries h)) - x_for)))"
  using py_index_from_end [OF assms forwarded_for_entries_nonempty]
  by (simp add: select_forwarded_for_def Let_def)

lemma get_real_ip_chain:
  assumes "req_headers request ''X-Forwarded-For'' = Some h" and "h \<noteq> []"
    and "select_forwarded_for h x_for = Inr e"
  shows "get_real_ip request x_for st =
           Inr (cross_check (Some e) (req_headers request ''X-Real-IP'') (req_remote_addr request) st)"
  using assms by (simp add: get_real_ip_def Let_def truthy_def py_str_def)

text \<open>
  Claim C1.  When the proxy-chain header is set and not empty and the trust depth
  \<open>x_for\<close> is at least 1, the entry \<^verbatim>\<open>get_real_ip\<close> takes from the chain is the one at index
  \<open>max 0 (n - x_for)\<close> of the list of comma-separated, stripped entries, where \<open>n\<close> is the
  length of that list.  That index is inside the list, it is the entry Python's negative index
  \<open>- min n x_for\<close> denotes, and it is the value \<^verbatim>\<open>get_real_ip\<close> goes on with.
\<close>

theorem select_forwarded_for_index:
  assumes "req_headers request ''X-Forwarded-For'' = Some h" and "h \<noteq> []" and "1 \<le> x_for"
  shows "let entries = map strip (str_split CHR '','' h);
             n = int (length entries);
             k = nat (max 0 (n - x_for))
         in k < length entries
            \<and> select_forwarded_for h x_for = Inr (entries ! k)
            \<and> py_index entries (- min n x_for) = Inr (entries ! k)
            \<and> get_real_ip request x_for st =
                Inr (cross_check (Some (entries ! k)) (req_headers request ''X-Real-IP'')
                       (req_remote_addr request) st)"
proof -
  let ?es = "forwarded_for_entries h"
  let ?k = "nat (max 0 (int (length ?es) - x_for))"
  have ne: "?es \<noteq> []" by (rule forwarded_for_entries_nonempty)
  have idx: "py_index ?es (- min (int (length ?es)) x_for) = Inr (?es ! ?k)"
    using assms(3) ne by (rule py_index_from_end)
  have sel: "select_forwarded_for h x_for = Inr (?es ! ?k)"
    using assms(3) by (rule select_forwarded_for_eq)
  have lt: "?k < length ?es"
    using assms(3) ne by (auto simp: max_def)
  have g: "get_real_ip request x_for st =
      Inr (cross_check (Some (?es ! ?k)) (req_headers request ''X-Real-IP'') (req_remote_addr request) st)"
    using assms(1,2) sel by (rule get_real_ip_chain)
  show ?thesis
    unfolding Let_def using idx sel lt g by (simp add: forwarded_for_entries_def)
qed

theorem select_forwarded_for_index_witness:
  "select_forwarded_for ''10.0.0.1, 192.0.2.7 ,203.0.113.9'' 2 = Inr ''192.0.2.7''
   \<and> get_real_ip \<lparr>req_path = ''/search'',
                  req_headers = [''X-Forwarded-For'' \<mapsto> ''10.0.0.1, 192.0.2.7 ,203.0.113.9''],
                  req_form = [], req_remote_addr = None\<rparr> 2 initial_state
     = Inr (cross_check (Some ''192.0.2.7'') None None initial_state)"
  using select_forwarded_for_index
    [of "\<lparr>req_path = ''/search'',
          req_headers = [''X-Forwarded-For'' \<mapsto> ''10.0.0.1, 192.0.2.7 ,203.0.113.9''],
          req_form = [], req_remote_addr = None\<rparr>"
        "''10.0.0.1, 192.0.2.7 ,203.0.113.9''" 2 initial_state]
  by (simp add: Let_def strip_def py_isspace_def)

section \<open>Properties of \<^verbatim>\<open>get_real_ip\<close>: log records and returned value\<close>

lemma emitted_append: "logger st' = logger st @ xs \<Longrightarrow> emitted st st' = xs"
  by (simp add: emitted_def)

lemma logger_log_error_only_once:
  "logger (log_error_only_once m st) = logger st @ once_records m st"
  by (simp add: log_error_only_once_def logger_log_def once_records_def)

lemma logged_errors_log_error_only_once:
  "logged_errors (log_error_only_once m st) =
     (if m \<in> set (logged_errors st) then logged_errors st else logged_errors st @ [m])"
  by (simp add: log_error_only_once_def logger_log_def)

lemma logger_logger_log: "logger (logger_log l m a st) = logger st @ [(l, m, a)]"
  by (simp add: logger_log_def)

lemma logged_errors_logger_log: "logged_errors (logger_log l m a st) = logged_errors st"
  by (simp add: logger_log_def)

lemma fst_cross_check:
  "fst (cross_check ff r a st) = or_str ff (or_str r (or_str a ''0.0.0.0''))"
  by (simp add: cross_check_def Let_def)

lemma logger_cross_check:
  "logger (snd (cross_check ff r a st)) =
     logger st @ (if truthy r then [] else once_records msg_real_ip_not_set st) @ spec_warnings ff r a"
  by (auto simp: cross_check_def Let_def spec_warnings_def spec_pair_warning_def logger_logger_log
        logger_log_error_only_once)

lemma emitted_cross_check:
  "emitted st (snd (cross_check ff r a st)) =
     (if truthy r then [] else once_records msg_real_ip_not_set st) @ spec_warnings ff r a"
  by (rule emitted_append) (simp add: logger_cross_check)

lemma logged_errors_cross_check:
  "logged_errors (snd (cross_check ff r a st)) =
     (if truthy r then logged_errors st else logged_errors (log_error_only_once msg_real_ip_not_set st))"
  by (simp add: cross_check_def Let_def logged_errors_logger_log)

lemma or_str_first: "or_str a (or_str b (or_str c ''0.0.0.0'')) = spec_first_non_empty [a, b, c]"
  by (auto simp: or_str_def spec_first_non_empty_def List.map_filter_def split: option.splits)

lemma or_str_not_truthy: "\<not> truthy v \<Longrightarrow> or_str v d = d"
  by (auto simp: or_str_def truthy_def split: option.splits)

lemma filter_warning_spec: "filter is_warning (spec_warnings ff r a) = spec_warnings ff r a"
  by (simp add: spec_warnings_def spec_pair_warning_def is_warning_def)

lemma filter_warning_once: "filter is_warning (once_records m st) = []"
  by (simp add: once_records_def is_warning_def)

lemma spec_warnings_absent: "\<not> truthy ff \<Longrightarrow> spec_warnings ff r a = spec_warnings None r a"
  by (simp add: spec_warnings_def spec_pair_warning_def truthy_def)

lemma get_real_ip_absent:
  assumes "\<not> truthy (req_headers request ''X-Forwarded-For'')"
  shows "get_real_ip request x_for st =
           Inr (cross_check (req_headers request ''X-Forwarded-For'') (req_headers request ''X-Real-IP'')
                  (req_remote_addr request) (log_error_only_once msg_xff_not_set st))"
  using assms by (simp add: get_real_ip_def Let_def)

lemma spec_chain_candidate_absent:
  "\<not> truthy (req_headers request ''X-Forwarded-For'') \<Longrightarrow> spec_chain_candidate request x_for = None"
  by (auto simp: spec_chain_candidate_def truthy_def split: option.splits)

lemma spec_chain_candidate_present:
  assumes "req_headers request ''X-Forwarded-For'' = Some h" and "h \<noteq> []"
  shows "spec_chain_candidate request x_for =
           Some (forwarded_for_entries h ! nat (max 0 (int (length (forwarded_for_entries h)) - x_for)))"
  using assms by (simp add: spec_chain_candidate_def forwarded_for_entries_def Let_def)

lemma getMessage_warnings:
  "getMessage (WARNING, msg_real_ip_vs_xff, [r, ff]) =
     Some (''IP from X-Real-IP ('' @ r @ '') is not equal to IP from X-Forwarded-For ('' @ ff @ '')'')"
  "getMessage (WARNING, msg_wsgi_vs_xff, [a, ff]) =
     Some (''IP from WSGI environment ('' @ a @ '') is not equal to IP from X-Forwarded-For ('' @ ff @ '')'')"
  "getMessage (WARNING, msg_wsgi_vs_real_ip, [a, r]) =
     Some (''IP from WSGI environment ('' @ a @ '') is not equal to IP from X-Real-IP ('' @ r @ '')'')"
  by (simp_all add: getMessage_def msg_real_ip_vs_xff_def msg_wsgi_vs_xff_def msg_wsgi_vs_real_ip_def)

text \<open>The value returned, for a trust depth of at least 1.\<close>

lemma get_real_ip_result:
  assumes "1 \<le> x_for"
  shows "\<exists>st'. get_real_ip request x_for st =
            Inr (spec_first_non_empty [spec_chain_candidate request x_for,
                                       req_headers request ''X-Real-IP'',
                                       req_remote_addr request], st')
          \<and> filter is_warning (emitted st st') =
               spec_warnings (spec_chain_candidate request x_for) (req_headers request ''X-Real-IP'')
                 (req_remote_addr request)"
proof (cases "truthy (req_headers request ''X-Forwarded-For'')")
  case False
  let ?st0 = "log_error_only_once msg_xff_not_set st"
  let ?cc = "cross_check (req_headers request ''X-Forwarded-For'') (req_headers request ''X-Real-IP'')
                  (req_remote_addr request) ?st0"
  have c: "spec_chain_candidate request x_for = None"
    using False by (rule spec_chain_candidate_absent)
  have f: "fst ?cc = spec_first_non_empty [None, req_headers request ''X-Real-IP'', req_remote_addr request]"
    using or_str_not_truthy[OF False]
    by (simp add: fst_cross_check or_str_first[symmetric] or_str_def)
  have g: "get_real_ip request x_for st =
      Inr (spec_first_non_empty [None, req_headers request ''X-Real-IP'', req_remote_addr request], snd ?cc)"
    using get_real_ip_absent[OF False, of x_for st] f by (simp add: prod_eq_iff)
  have "logger (snd ?cc) = logger st @ (once_records msg_xff_not_set st
          @ (if truthy (req_headers request ''X-Real-IP'') then [] else once_records msg_real_ip_not_set ?st0)
          @ spec_warnings None (req_headers request ''X-Real-IP'') (req_remote_addr request))"
    using spec_warnings_absent[OF False]
    by (simp add: logger_cross_check logger_log_error_only_once)
  then have "emitted st (snd ?cc) = once_records msg_xff_not_set st
          @ (if truthy (req_headers request ''X-Real-IP'') then [] else once_records msg_real_ip_not_set ?st0)
          @ spec_warnings None (req_headers request ''X-Real-IP'') (req_remote_addr request)"
    by (rule emitted_append)
  then have w: "filter is_warning (emitted st (snd ?cc)) =
      spec_warnings None (req_headers request ''X-Real-IP'') (req_remote_addr request)"
    by (simp add: filter_warning_spec filter_warning_once)
  show ?thesis
    by (rule exI[of _ "snd ?cc"]) (simp add: g c w)
next
  case True
  then obtain h where h: "req_headers request ''X-Forwarded-For'' = Some h" "h \<noteq> []"
    by (auto simp: truthy_def split: option.splits)
  let ?e = "forwarded_for_entries h ! nat (max 0 (int (length (forwarded_for_entries h)) - x_for))"
  let ?cc = "cross_check (Some ?e) (req_headers request ''X-Real-IP'') (req_remote_addr request) st"
  have sel: "select_forwarded_for h x_for = Inr ?e"
    using assms by (rule select_forwarded_for_eq)
  have c: "spec_chain_candidate request x_for = Some ?e"
    using h by (rule spec_chain_candidate_present)
  have f: "fst ?cc = spec_first_non_empty [Some ?e, req_headers request ''X-Real-IP'', req_remote_addr request]"
    by (simp add: fst_cross_check or_str_first)
  have g: "get_real_ip request x_for st =
      Inr (spec_first_non_empty [Some ?e, req_headers request ''X-Real-IP'', req_remote_addr request], snd ?cc)"
    using get_real_ip_chain[OF h sel, of st] f by (simp add: prod_eq_iff)
  have w: "filter is_warning (emitted st (snd ?cc)) =
      spec_warnings (Some ?e) (req_headers request ''X-Real-IP'') (req_remote_addr request)"
    by (simp add: emitted_cross_check filter_warning_spec filter_warning_once)
  show ?thesis
    by (rule exI[of _ "snd ?cc"]) (simp add: g c w)
qed

text \<open>
  Claim C2.  With a trust depth of at least 1 (the configured range), \<^verbatim>\<open>get_real_ip\<close> never
  raises, and the string it returns is the first present, non-empty value among the
  chain-derived candidate, the \<^verbatim>\<open>X-Real-IP\<close> header and the peer address, in this order; when
  none of the three is present and non-empty it returns \<^verbatim>\<open>'0.0.0.0'\<close>.
\<close>

theorem get_real_ip_priority:
  assumes "1 \<le> x_for"
  shows "(\<exists>st'. get_real_ip request x_for st =
            Inr (spec_first_non_empty [spec_chain_candidate request x_for,
                                       req_headers request ''X-Real-IP'',
                                       req_remote_addr request], st'))
         \<and> (\<not> truthy (spec_chain_candidate request x_for)
              \<and> \<not> truthy (req_headers request ''X-Real-IP'')
              \<and> \<not> truthy (req_remote_addr request)
            \<longrightarrow> (\<exists>st'. get_real_ip request x_for st = Inr (''0.0.0.0'', st')))"
proof -
  obtain st' where g: "get_real_ip request x_for st =
            Inr (spec_first_non_empty [spec_chain_candidate request x_for,
                                       req_headers request ''X-Real-IP'',
                                       req_remote_addr request], st')"
    using get_real_ip_result[OF assms, of request st] by blast
  have "spec_first_non_empty [a, b, c] = ''0.0.0.0''"
    if "\<not> truthy a" and "\<not> truthy b" and "\<not> truthy c" for a b c
    using that by (simp add: or_str_first[symmetric] or_str_not_truthy)
  with g show ?thesis by auto
qed

theorem get_real_ip_priority_witness:
  "(\<exists>st'. get_real_ip (request_with [(''X-Real-IP'', ''198.51.100.4'')] (Some ''127.0.0.1'')) 1 initial_state
           = Inr (''198.51.100.4'', st'))
   \<and> (\<exists>st'. get_real_ip (request_with [(''X-Forwarded-For'', '' , '')] (Some [])) 1 initial_state
           = Inr (''0.0.0.0'', st'))"
  using get_real_ip_priority
          [of 1 "request_with [(''X-Real-IP'', ''198.51.100.4'')] (Some ''127.0.0.1'')" initial_state]
        get_real_ip_priority
          [of 1 "request_with [(''X-Forwarded-For'', '' , '')] (Some [])" initial_state]
  by (simp add: request_with_def spec_chain_candidate_def spec_first_non_empty_def
        List.map_filter_def truthy_def strip_def py_isspace_def Let_def)

lemma get_real_ip_three_distinct:
  assumes "req_headers request ''X-Forwarded-For'' = Some h" and "h \<noteq> []"
    and "select_forwarded_for h x_for = Inr ff" and "ff \<noteq> []"
    and "req_headers request ''X-Real-IP'' = Some r" and "r \<noteq> []"
    and "req_remote_addr request = Some a" and "a \<noteq> []"
    and "ff \<noteq> r" and "ff \<noteq> a" and "r \<noteq> a"
  shows "\<exists>st'. get_real_ip request x_for st = Inr (ff, st')
           \<and> emitted st st' = [(WARNING, msg_real_ip_vs_xff, [r, ff]),
                                (WARNING, msg_wsgi_vs_xff, [a, ff]),
                                (WARNING, msg_wsgi_vs_real_ip, [a, r])]
           \<and> logged_errors st' = logged_errors st"
proof -
  let ?cc = "cross_check (Some ff) (Some r) (Some a) st"
  have g: "get_real_ip request x_for st = Inr (fst ?cc, snd ?cc)"
    using get_real_ip_chain[OF assms(1,2,3)] assms(5,7) by simp
  have f: "fst ?cc = ff"
    using assms(4) by (simp add: fst_cross_check or_str_def)
  have e: "emitted st (snd ?cc) = [(WARNING, msg_real_ip_vs_xff, [r, ff]),
                                (WARNING, msg_wsgi_vs_xff, [a, ff]),
                                (WARNING, msg_wsgi_vs_real_ip, [a, r])]"
    using assms(4,6,8,9,10,11)
    by (simp add: emitted_cross_check spec_warnings_def spec_pair_warning_def truthy_def py_str_def)
  have l: "logged_errors (snd ?cc) = logged_errors st"
    using assms(6) by (simp add: logged_errors_cross_check truthy_def)
  have g': "get_real_ip request x_for st = Inr (ff, snd ?cc)"
    using g f by simp
  show ?thesis
    by (rule exI[of _ "snd ?cc"]) (simp add: g' e l)
qed

text \<open>
  Claim C5.  For a trust depth of at least 1, the warnings one call of \<^verbatim>\<open>get_real_ip\<close>
  hands to the logger are exactly one per pair of candidates (chain and secondary, chain and
  peer, secondary and peer) whose members are both present, both non-empty, and unequal.  This
  holds in every state, so a second call in the state the first one left emits the same
  warnings again: nothing is deduplicated.  When the three candidates are present, non-empty
  and pairwise distinct, the call returns the chain-derived address, hands exactly three
  records to the logger, all warnings, and their three formatted lines are pairwise distinct.
\<close>

theorem get_real_ip_warnings:
  assumes "1 \<le> x_for"
  shows "(\<exists>ip st'. get_real_ip request x_for st = Inr (ip, st')
             \<and> filter is_warning (emitted st st') =
                 spec_warnings (spec_chain_candidate request x_for) (req_headers request ''X-Real-IP'')
                   (req_remote_addr request)
             \<and> (\<exists>st''. get_real_ip request x_for st' = Inr (ip, st'')
                   \<and> filter is_warning (emitted st' st'') = filter is_warning (emitted st st')))
         \<and> (spec_chain_candidate request x_for = Some ff \<and> ff \<noteq> []
              \<and> req_headers request ''X-Real-IP'' = Some r \<and> r \<noteq> []
              \<and> req_remote_addr request = Some a \<and> a \<noteq> []
              \<and> ff \<noteq> r \<and> ff \<noteq> a \<and> r \<noteq> a
            \<longrightarrow> (\<exists>st'. get_real_ip request x_for st = Inr (ff, st')
                   \<and> emitted st st' = [(WARNING, msg_real_ip_vs_xff, [r, ff]),
                                        (WARNING, msg_wsgi_vs_xff, [a, ff]),
                                        (WARNING, msg_wsgi_vs_real_ip, [a, r])]
                   \<and> map getMessage (emitted st st') =
                       [Some (''IP from X-Real-IP ('' @ r @ '') is not equal to IP from X-Forwarded-For ('' @ ff @ '')''),
                        Some (''IP from WSGI environment ('' @ a @ '') is not equal to IP from X-Forwarded-For ('' @ ff @ '')''),
                        Some (''IP from WSGI environment ('' @ a @ '') is not equal to IP from X-Real-IP ('' @ r @ '')'')]
                   \<and> distinct (map getMessage (emitted st st'))))"
proof (rule conjI)
  let ?ip = "spec_first_non_empty [spec_chain_candidate request x_for, req_headers request ''X-Real-IP'',
               req_remote_addr request]"
  let ?w = "spec_warnings (spec_chain_candidate request x_for) (req_headers request ''X-Real-IP'')
                   (req_remote_addr request)"
  obtain st' where 1: "get_real_ip request x_for st = Inr (?ip, st')"
      "filter is_warning (emitted st st') = ?w"
    using get_real_ip_result[OF assms, of request st] by blast
  obtain st'' where 2: "get_real_ip request x_for st' = Inr (?ip, st'')"
      "filter is_warning (emitted st' st'') = ?w"
    using get_real_ip_result[OF assms, of request st'] by blast
  show "\<exists>ip st'. get_real_ip request x_for st = Inr (ip, st')
             \<and> filter is_warning (emitted st st') = ?w
             \<and> (\<exists>st''. get_real_ip request x_for st' = Inr (ip, st'')
                   \<and> filter is_warning (emitted st' st'') = filter is_warning (emitted st st'))"
    using 1 2 by auto
next
  show "spec_chain_candidate request x_for = Some ff \<and> ff \<noteq> []
              \<and> req_headers request ''X-Real-IP'' = Some r \<and> r \<noteq> []
              \<and> req_remote_addr request = Some a \<and> a \<noteq> []
              \<and> ff \<noteq> r \<and> ff \<noteq> a \<and> r \<noteq> a
            \<longrightarrow> (\<exists>st'. get_real_ip request x_for st = Inr (ff, st')
                   \<and> emitted st st' = [(WARNING, msg_real_ip_vs_xff, [r, ff]),
                                        (WARNING, msg_wsgi_vs_xff, [a, ff]),
                                        (WARNING, msg_wsgi_vs_real_ip, [a, r])]
                   \<and> map getMessage (emitted st st') =
                       [Some (''IP from X-Real-IP ('' @ r @ '') is not equal to IP from X-Forwarded-For ('' @ ff @ '')''),
                        Some (''IP from WSGI environment ('' @ a @ '') is not equal to IP from X-Forwarded-For ('' @ ff @ '')''),
                        Some (''IP from WSGI environment ('' @ a @ '') is not equal to IP from X-Real-IP ('' @ r @ '')'')]
                   \<and> distinct (map getMessage (emitted st st')))"
  proof
    assume H: "spec_chain_candidate request x_for = Some ff \<and> ff \<noteq> []
              \<and> req_headers request ''X-Real-IP'' = Some r \<and> r \<noteq> []
              \<and> req_remote_addr request = Some a \<and> a \<noteq> []
              \<and> ff \<noteq> r \<and> ff \<noteq> a \<and> r \<noteq> a"
    then obtain h where h: "req_headers request ''X-Forwarded-For'' = Some h" "h \<noteq> []"
      by (auto simp: spec_chain_candidate_def split: option.splits if_splits)
    have "select_forwarded_for h x_for = Inr ff"
      using select_forwarded_for_eq[OF assms, of h] spec_chain_candidate_present[OF h, of x_for] H
      by simp
    from get_real_ip_three_distinct[OF h this, of r a st] H
    obtain st' where 3: "get_real_ip request x_for st = Inr (ff, st')"
       "emitted st st' = [(WARNING, msg_real_ip_vs_xff, [r, ff]),
                                        (WARNING, msg_wsgi_vs_xff, [a, ff]),
                                        (WARNING, msg_wsgi_vs_real_ip, [a, r])]"
      by blast
    show "\<exists>st'. get_real_ip request x_for st = Inr (ff, st')
                   \<and> emitted st st' = [(WARNING, msg_real_ip_vs_xff, [r, ff]),
                                        (WARNING, msg_wsgi_vs_xff, [a, ff]),
                                        (WARNING, msg_wsgi_vs_real_ip, [a, r])]
                   \<and> map getMessage (emitted st st') =
                       [Some (''IP from X-Real-IP ('' @ r @ '') is not equal to IP from X-Forwarded-For ('' @ ff @ '')''),
                        Some (''IP from WSGI environment ('' @ a @ '') is not equal to IP from X-Forwarded-For ('' @ ff @ '')''),
                        Some (''IP from WSGI environment ('' @ a @ '') is not equal to IP from X-Real-IP ('' @ r @ '')'')]
                   \<and> distinct (map getMessage (emitted st st'))"
      by (rule exI[of _ st']) (simp add: 3 getMessage_warnings)
  qed
qed

theorem get_real_ip_warnings_witness:
  "\<exists>st'. get_real_ip (request_with [(''X-Forwarded-For'', ''10.9.8.7, 198.51.100.7''),
                                     (''X-Real-IP'', ''203.0.113.9'')] (Some ''127.0.0.1'')) 1 initial_state
            = Inr (''198.51.100.7'', st')
        \<and> map getMessage (emitted initial_state st') =
            [Some ''IP from X-Real-IP (203.0.113.9) is not equal to IP from X-Forwarded-For (198.51.100.7)'',
             Some ''IP from WSGI environment (127.0.0.1) is not equal to IP from X-Forwarded-For (198.51.100.7)'',
             Some ''IP from WSGI environment (127.0.0.1) is not equal to IP from X-Real-IP (203.0.113.9)'']"
proof -
  let ?req = "request_with [(''X-Forwarded-For'', ''10.9.8.7, 198.51.100.7''),
                            (''X-Real-IP'', ''203.0.113.9'')] (Some ''127.0.0.1'')"
  have hyp: "spec_chain_candidate ?req 1 = Some ''198.51.100.7'' \<and> ''198.51.100.7'' \<noteq> []
              \<and> req_headers ?req ''X-Real-IP'' = Some ''203.0.113.9'' \<and> ''203.0.113.9'' \<noteq> []
              \<and> req_remote_addr ?req = Some ''127.0.0.1'' \<and> ''127.0.0.1'' \<noteq> []
              \<and> ''198.51.100.7'' \<noteq> ''203.0.113.9'' \<and> ''198.51.100.7'' \<noteq> ''127.0.0.1''
              \<and> ''203.0.113.9'' \<noteq> ''127.0.0.1''"
    by (simp add: request_with_def spec_chain_candidate_def strip_def py_isspace_def Let_def)
  have one: "(1::int) \<le> 1" by simp
  from get_real_ip_warnings [OF one, of ?req initial_state, THEN conjunct2, THEN mp, OF hyp]
  obtain st' where "get_real_ip ?req 1 initial_state = Inr (''198.51.100.7'', st')"
    and "map getMessage (emitted initial_state st') =
           [Some (''IP from X-Real-IP ('' @ ''203.0.113.9'' @ '') is not equal to IP from X-Forwarded-For ('' @ ''198.51.100.7'' @ '')''),
            Some (''IP from WSGI environment ('' @ ''127.0.0.1'' @ '') is not equal to IP from X-Forwarded-For ('' @ ''198.51.100.7'' @ '')''),
            Some (''IP from WSGI environment ('' @ ''127.0.0.1'' @ '') is not equal to IP from X-Real-IP ('' @ ''203.0.113.9'' @ '')'')]"
    by (elim exE conjE)
  then show ?thesis
    by (intro exI[of _ st']) simp
qed


section \<open>Properties of \<^verbatim>\<open>_log_error_only_once\<close>\<close>

lemma count_once_records:
  "count_list (once_records m st) (ERROR, err, []) = (if m = err \<and> err \<notin> set (logged_errors st) then 1 else 0)"
  by (auto simp: once_records_def)

lemma fold_log_error_only_once:
  "count_list (logger (fold log_error_only_once msgs st)) (ERROR, err, []) =
     count_list (logger st) (ERROR, err, [])
       + (if err \<in> set msgs \<and> err \<notin> set (logged_errors st) then 1 else 0)
   \<and> set (logged_errors (fold log_error_only_once msgs st)) = set (logged_errors st) \<union> set msgs"
proof (induction msgs arbitrary: st)
  case Nil
  show ?case by simp
next
  case (Cons m msgs)
  show ?case
    using Cons.IH[of "log_error_only_once m st"]
    by (auto simp: logger_log_error_only_once logged_errors_log_error_only_once count_once_records)
qed

lemma count_spec_warnings: "count_list (spec_warnings ff r a) (ERROR, m, args) = 0"
  by (simp add: spec_warnings_def spec_pair_warning_def)

lemma msgs_differ: "msg_real_ip_not_set \<noteq> msg_xff_not_set"
  by (simp add: msg_real_ip_not_set_def msg_xff_not_set_def)

lemma emitted_get_real_ip_absent:
  assumes "\<not> truthy (req_headers request ''X-Forwarded-For'')"
  shows "\<exists>ip st'. get_real_ip request x_for st = Inr (ip, st')
           \<and> logger st' = logger st @ emitted st st'
           \<and> count_list (emitted st st') (ERROR, msg_xff_not_set, []) =
               (if msg_xff_not_set \<in> set (logged_errors st) then 0 else 1)
           \<and> msg_xff_not_set \<in> set (logged_errors st')"
proof -
  let ?st0 = "log_error_only_once msg_xff_not_set st"
  let ?cc = "cross_check (req_headers request ''X-Forwarded-For'') (req_headers request ''X-Real-IP'')
                  (req_remote_addr request) ?st0"
  let ?new = "once_records msg_xff_not_set st
          @ (if truthy (req_headers request ''X-Real-IP'') then [] else once_records msg_real_ip_not_set ?st0)
          @ spec_warnings (req_headers request ''X-Forwarded-For'') (req_headers request ''X-Real-IP'') (req_remote_addr request)"
  have g: "get_real_ip request x_for st = Inr (fst ?cc, snd ?cc)"
    using get_real_ip_absent[OF assms, of x_for st] by simp
  have lg: "logger (snd ?cc) = logger st @ ?new"
    by (simp add: logger_cross_check logger_log_error_only_once)
  then have e: "emitted st (snd ?cc) = ?new"
    by (rule emitted_append)
  have c: "count_list ?new (ERROR, msg_xff_not_set, []) =
               (if msg_xff_not_set \<in> set (logged_errors st) then 0 else 1)"
    using msgs_differ by (simp add: count_once_records count_spec_warnings)
  have l: "msg_xff_not_set \<in> set (logged_errors (snd ?cc))"
    by (simp add: logged_errors_cross_check logged_errors_log_error_only_once)
  show ?thesis
    by (rule exI[of _ "fst ?cc"], rule exI[of _ "snd ?cc"]) (simp only: g e lg c l simp_thms)
qed

lemma emitted_compose:
  assumes "logger st1 = logger st @ emitted st st1" and "logger st2 = logger st1 @ emitted st1 st2"
  shows "emitted st st2 = emitted st st1 @ emitted st1 st2"
proof -
  have "logger st2 = logger st @ (emitted st st1 @ emitted st1 st2)"
    using assms by simp
  then show ?thesis by (rule emitted_append)
qed

text \<open>
  Claim C6.  \<^verbatim>\<open>_log_error_only_once\<close> hands a message to the logger at error severity when the
  message is not yet in \<^verbatim>\<open>_logged_errors\<close>, and records it there; when the message is already
  recorded the call changes nothing.  Hence, starting from the freshly imported module, after
  any sequence of calls a message has been logged exactly once if it was passed at all.  Two
  calls of \<^verbatim>\<open>get_real_ip\<close> with the proxy-chain header absent or empty, starting in a state where
  the diagnostic has not been logged, log it exactly once: once in the first call, not at all
  in the second.
\<close>

theorem log_error_only_once_dedup:
  "(err \<notin> set (logged_errors st) \<longrightarrow>
      emitted st (log_error_only_once err st) = [(ERROR, err, [])]
      \<and> err \<in> set (logged_errors (log_error_only_once err st)))
   \<and> (err \<in> set (logged_errors st) \<longrightarrow> log_error_only_once err st = st)
   \<and> count_list (logger (fold log_error_only_once msgs initial_state)) (ERROR, err, []) =
        (if err \<in> set msgs then 1 else 0)
   \<and> (\<not> truthy (req_headers request1 ''X-Forwarded-For'')
        \<and> \<not> truthy (req_headers request2 ''X-Forwarded-For'')
        \<and> msg_xff_not_set \<notin> set (logged_errors st)
      \<longrightarrow> (\<exists>ip1 st1 ip2 st2.
             get_real_ip request1 x_for1 st = Inr (ip1, st1)
             \<and> get_real_ip request2 x_for2 st1 = Inr (ip2, st2)
             \<and> count_list (emitted st st1) (ERROR, msg_xff_not_set, []) = 1
             \<and> count_list (emitted st1 st2) (ERROR, msg_xff_not_set, []) = 0
             \<and> count_list (emitted st st2) (ERROR, msg_xff_not_set, []) = 1))"
proof (intro conjI impI)
  assume "err \<notin> set (logged_errors st)"
  then show "emitted st (log_error_only_once err st) = [(ERROR, err, [])]"
    by (intro emitted_append) (simp add: logger_log_error_only_once once_records_def)
next
  assume "err \<notin> set (logged_errors st)"
  then show "err \<in> set (logged_errors (log_error_only_once err st))"
    by (simp add: logged_errors_log_error_only_once)
next
  assume "err \<in> set (logged_errors st)"
  then show "log_error_only_once err st = st"
    by (simp add: log_error_only_once_def)
next
  show "count_list (logger (fold log_error_only_once msgs initial_state)) (ERROR, err, []) =
        (if err \<in> set msgs then 1 else 0)"
    using fold_log_error_only_once[of msgs initial_state err]
    by (simp add: initial_state_def)
next
  assume H: "\<not> truthy (req_headers request1 ''X-Forwarded-For'')
        \<and> \<not> truthy (req_headers request2 ''X-Forwarded-For'')
        \<and> msg_xff_not_set \<notin> set (logged_errors st)"
  obtain ip1 st1 where 1: "get_real_ip request1 x_for1 st = Inr (ip1, st1)"
      "logger st1 = logger st @ emitted st st1"
      "count_list (emitted st st1) (ERROR, msg_xff_not_set, []) = 1"
      "msg_xff_not_set \<in> set (logged_errors st1)"
    using emitted_get_real_ip_absent[of request1 x_for1 st] H by auto
  obtain ip2 st2 where 2: "get_real_ip request2 x_for2 st1 = Inr (ip2, st2)"
      "logger st2 = logger st1 @ emitted st1 st2"
      "count_list (emitted st1 st2) (ERROR, msg_xff_not_set, []) = 0"
    using emitted_get_real_ip_absent[of request2 x_for2 st1] H 1(4) by auto
  have 3: "count_list (emitted st st2) (ERROR, msg_xff_not_set, []) = 1"
    using emitted_compose[OF 1(2) 2(2)] 1(3) 2(3) by simp
  show "\<exists>ip1 st1 ip2 st2.
             get_real_ip request1 x_for1 st = Inr (ip1, st1)
             \<and> get_real_ip request2 x_for2 st1 = Inr (ip2, st2)
             \<and> count_list (emitted st st1) (ERROR, msg_xff_not_set, []) = 1
             \<and> count_list (emitted st1 st2) (ERROR, msg_xff_not_set, []) = 0
             \<and> count_list (emitted st st2) (ERROR, msg_xff_not_set, []) = 1"
    using 1(1,3) 2(1,3) 3 by blast
qed

theorem log_error_only_once_dedup_witness:
  "emitted initial_state (log_error_only_once ''X-Real-IP header is not set!'' initial_state)
     = [(ERROR, ''X-Real-IP header is not set!'', [])]
   \<and> log_error_only_once ''X-Real-IP header is not set!''
        \<lparr>logged_errors = [''X-Real-IP header is not set!''], logger = []\<rparr>
      = \<lparr>logged_errors = [''X-Real-IP header is not set!''], logger = []\<rparr>
   \<and> (\<exists>ip1 st1 ip2 st2.
         get_real_ip (request_with [] (Some ''127.0.0.1'')) 1 initial_state = Inr (ip1, st1)
         \<and> get_real_ip (request_with [(''X-Forwarded-For'', [])] (Some ''127.0.0.1'')) 1 st1 = Inr (ip2, st2)
         \<and> count_list (emitted initial_state st2) (ERROR, ''X-Forwarded-For header is not set!'', []) = 1)"
proof -
  have a: "emitted initial_state (log_error_only_once ''X-Real-IP header is not set!'' initial_state)
     = [(ERROR, ''X-Real-IP header is not set!'', [])]"
    using log_error_only_once_dedup
            [of "''X-Real-IP header is not set!''" initial_state "[]" "request_with [] None"
                "request_with [] None" 1 1]
    by (simp add: initial_state_def)
  have b: "log_error_only_once ''X-Real-IP header is not set!''
        \<lparr>logged_errors = [''X-Real-IP header is not set!''], logger = []\<rparr>
      = \<lparr>logged_errors = [''X-Real-IP header is not set!''], logger = []\<rparr>"
    using log_error_only_once_dedup
            [of "''X-Real-IP header is not set!''"
                "\<lparr>logged_errors = [''X-Real-IP header is not set!''], logger = []\<rparr>"
                "[]" "request_with [] None" "request_with [] None" 1 1]
    by simp
  have c: "\<exists>ip1 st1 ip2 st2.
         get_real_ip (request_with [] (Some ''127.0.0.1'')) 1 initial_state = Inr (ip1, st1)
         \<and> get_real_ip (request_with [(''X-Forwarded-For'', [])] (Some ''127.0.0.1'')) 1 st1 = Inr (ip2, st2)
         \<and> count_list (emitted initial_state st1) (ERROR, msg_xff_not_set, []) = 1
         \<and> count_list (emitted st1 st2) (ERROR, msg_xff_not_set, []) = 0
         \<and> count_list (emitted initial_state st2) (ERROR, msg_xff_not_set, []) = 1"
    using log_error_only_once_dedup
            [of "[]" initial_state "[]" "request_with [] (Some ''127.0.0.1'')"
                "request_with [(''X-Forwarded-For'', [])] (Some ''127.0.0.1'')" 1 1]
    by (simp add: initial_state_def request_with_def truthy_def)
  then obtain ip1 st1 ip2 st2 where
     "get_real_ip (request_with [] (Some ''127.0.0.1'')) 1 initial_state = Inr (ip1, st1)"
     "get_real_ip (request_with [(''X-Forwarded-For'', [])] (Some ''127.0.0.1'')) 1 st1 = Inr (ip2, st2)"
     "count_list (emitted initial_state st2) (ERROR, msg_xff_not_set, []) = 1"
    by (elim exE conjE)
  then have c': "\<exists>ip1 st1 ip2 st2.
         get_real_ip (request_with [] (Some ''127.0.0.1'')) 1 initial_state = Inr (ip1, st1)
         \<and> get_real_ip (request_with [(''X-Forwarded-For'', [])] (Some ''127.0.0.1'')) 1 st1 = Inr (ip2, st2)
         \<and> count_list (emitted initial_state st2) (ERROR, ''X-Forwarded-For header is not set!'', []) = 1"
    unfolding msg_xff_not_set_def by (intro exI conjI)
  show ?thesis using a b c' by (intro conjI)
qed


section \<open>Properties of \<^verbatim>\<open>dump_request\<close>\<close>

lemma dump_request_join: "dump_request request = str_join '' || '' (dump_fields request)"
  by (simp add: dump_request_def dump_fields_def dump_field_def dump_header_names_def py_str_def
        split: option.splits)

lemma dump_field_absent:
  "req_headers request name = None \<Longrightarrow> dump_field request name = name @ '': None''"
  by (simp add: dump_field_def)

lemma dump_field_present:
  "req_headers request name = Some v \<Longrightarrow> dump_field request name = name @ '': '' @ v"
  by (simp add: dump_field_def)

lemma set_str_join: "set (str_join sep ps) \<subseteq> set sep \<union> (\<Union>p \<in> set ps. set p)"
  by (induction sep ps rule: str_join.induct) auto

text \<open>
  Claim C8, as the code has it.  \<^verbatim>\<open>dump_request\<close> interpolates \<^verbatim>\<open>request.path\<close> as it is, and
  the path of a request may hold a line break (the percent-decoded \<^verbatim>\<open>%0A\<close>): for the path
  \<^verbatim>\<open>/a\<close>, line break, \<^verbatim>\<open>b\<close> the dump is two lines, not one.
\<close>

theorem dump_request_two_lines_counterexample:
  "dump_request \<lparr>req_path = CHR ''/'' # CHR ''a'' # CHR 0x0A # ''b'', req_headers = map_of [],
                  req_form = ''ImmutableMultiDict([])'', req_remote_addr = Some ''127.0.0.1''\<rparr>
     = CHR ''/'' # CHR ''a'' # CHR 0x0A #
       ''b || X-Forwarded-For: None || X-Real-IP: None || form: ImmutableMultiDict([]) || Accept: None || Accept-Language: None || Accept-Encoding: None || Content-Type: None || Content-Length: None || Connection: None || User-Agent: None''
   \<and> CHR 0x0A \<in> set (dump_request \<lparr>req_path = CHR ''/'' # CHR ''a'' # CHR 0x0A # ''b'',
                  req_headers = map_of [], req_form = ''ImmutableMultiDict([])'',
                  req_remote_addr = Some ''127.0.0.1''\<rparr>)"
  by (simp add: dump_request_def py_str_def)

text \<open>
  Claim C8, amended.  For every request the text \<^verbatim>\<open>dump_request\<close> builds is the join, with the
  delimiter \<^verbatim>\<open> || \<close>, of eleven fields in one fixed order: the path, \<^verbatim>\<open>X-Forwarded-For\<close>,
  \<^verbatim>\<open>X-Real-IP\<close>, the form, \<^verbatim>\<open>Accept\<close>, \<^verbatim>\<open>Accept-Language\<close>, \<^verbatim>\<open>Accept-Encoding\<close>,
  \<^verbatim>\<open>Content-Type\<close>, \<^verbatim>\<open>Content-Length\<close>, \<^verbatim>\<open>Connection\<close>, \<^verbatim>\<open>User-Agent\<close>.  Every header field
  is its label followed by the header's value, or by the marker \<^verbatim>\<open>None\<close> when the header is
  absent, so no field is ever left out or left empty; without a \<^verbatim>\<open>User-Agent\<close> header the text
  ends in \<^verbatim>\<open> || User-Agent: None\<close>.  The text is a single line whenever no field holds a line
  break: the formatter adds none of its own.
\<close>

theorem dump_request_columns:
  "dump_request request = str_join '' || '' (dump_fields request)
   \<and> length (dump_fields request) = 11
   \<and> dump_fields request ! 0 = req_path request
   \<and> dump_fields request ! 3 = ''form: '' @ req_form request
   \<and> (\<forall>(i, name) \<in> set [(1, ''X-Forwarded-For''), (2, ''X-Real-IP''), (4, ''Accept''),
                             (5, ''Accept-Language''), (6, ''Accept-Encoding''), (7, ''Content-Type''),
                             (8, ''Content-Length''), (9, ''Connection''), (10, ''User-Agent'')].
         dump_fields request ! i =
           name @ '': '' @ (case req_headers request name of None \<Rightarrow> ''None'' | Some v \<Rightarrow> v))
   \<and> (req_headers request ''User-Agent'' = None \<longrightarrow>
         last (dump_fields request) = ''User-Agent: None''
         \<and> (\<exists>line. dump_request request = line @ '' || User-Agent: None''))
   \<and> ((\<forall>f \<in> set (dump_fields request). CHR 0x0A \<notin> set f) \<longrightarrow>
         CHR 0x0A \<notin> set (dump_request request))"
proof (intro conjI)
  show "dump_request request = str_join '' || '' (dump_fields request)"
    by (rule dump_request_join)
  show "length (dump_fields request) = 11"
    by (simp add: dump_fields_def dump_header_names_def)
  show "dump_fields request ! 0 = req_path request"
    by (simp add: dump_fields_def)
  show "dump_fields request ! 3 = ''form: '' @ req_form request"
    by (simp add: dump_fields_def)
  show "\<forall>(i, name) \<in> set [(1, ''X-Forwarded-For''), (2, ''X-Real-IP''), (4, ''Accept''),
                             (5, ''Accept-Language''), (6, ''Accept-Encoding''), (7, ''Content-Type''),
                             (8, ''Content-Length''), (9, ''Connection''), (10, ''User-Agent'')].
         dump_fields request ! i =
           name @ '': '' @ (case req_headers request name of None \<Rightarrow> ''None'' | Some v \<Rightarrow> v)"
    by (simp add: dump_fields_def dump_header_names_def dump_field_def)
  show "req_headers request ''User-Agent'' = None \<longrightarrow>
         last (dump_fields request) = ''User-Agent: None''
         \<and> (\<exists>line. dump_request request = line @ '' || User-Agent: None'')"
    by (simp add: dump_fields_def dump_header_names_def dump_field_def dump_request_def py_str_def)
  show "(\<forall>f \<in> set (dump_fields request). CHR 0x0A \<notin> set f) \<longrightarrow>
         CHR 0x0A \<notin> set (dump_request request)"
  proof
    assume "\<forall>f \<in> set (dump_fields request). CHR 0x0A \<notin> set f"
    then have "CHR 0x0A \<notin> set '' || '' \<union> (\<Union>p \<in> set (dump_fields request). set p)"
      by simp
    then show "CHR 0x0A \<notin> set (dump_request request)"
      using set_str_join[of "'' || ''" "dump_fields request"] unfolding dump_request_join by blast
  qed
qed

theorem dump_request_columns_witness:
  "dump_request (request_with [(''Accept'', ''*/*''), (''X-Real-IP'', ''203.0.113.9'')] (Some ''127.0.0.1'')) =
     ''/search || X-Forwarded-For: None || X-Real-IP: 203.0.113.9 || form: ImmutableMultiDict([]) || Accept: */* || Accept-Language: None || Accept-Encoding: None || Content-Type: None || Content-Length: None || Connection: None || User-Agent: None''"
  using dump_request_columns
    [of "request_with [(''Accept'', ''*/*''), (''X-Real-IP'', ''203.0.113.9'')] (Some ''127.0.0.1'')"]
  by (simp add: request_with_def dump_fields_def dump_header_names_def dump_field_def)


section \<open>Properties of \<^verbatim>\<open>get_real_ip\<close>: what is returned is never parsed\<close>

lemmas ipaddress_defs =
  ip_address_def IPv4Address_of_str_def IPv6Address_of_str_def ipv4_int_from_string_def
  ipv6_int_from_string_def ipv6_parts_def split_scope_id_def parse_octet_def parse_hextet_def
  hextets_to_int_def add_hextets_def is_digit_def hex_value_def int_of_digits_def

lemma valid_address_sentinel: "valid_address ''0.0.0.0''"
  by (simp add: valid_address_def ipaddress_defs)

lemma ip_address_empty: "ip_address [] = None"
  by (simp add: ipaddress_defs)

lemma spec_first_non_empty_cases:
  "spec_first_non_empty [a, b, c] = ''0.0.0.0''
   \<or> (spec_first_non_empty [a, b, c] \<noteq> [] \<and> Some (spec_first_non_empty [a, b, c]) \<in> {a, b, c})"
  by (auto simp: spec_first_non_empty_def List.map_filter_def split: option.splits)

text \<open>
  Claim C3, as the code has it.  \<^verbatim>\<open>get_real_ip\<close> parses nothing: a proxy-chain header
  \<^verbatim>\<open>unknown\<close> is returned as it is, although it is neither an address nor the sentinel.
\<close>

theorem get_real_ip_unvalidated_counterexample:
  "map_sum id fst
     (get_real_ip (request_with [(''X-Forwarded-For'', ''unknown'')] (Some ''127.0.0.1'')) 1 initial_state)
     = Inr ''unknown''
   \<and> \<not> valid_address ''unknown'' \<and> ''unknown'' \<noteq> ''0.0.0.0''"
  by (simp add: get_real_ip_def select_forwarded_for_def forwarded_for_entries_def request_with_def
        py_index_def strip_def py_isspace_def truthy_def py_str_def Let_def
        cross_check_def or_str_def valid_address_def ipaddress_defs)

text \<open>
  Claim C3, amended.  For a trust depth of at least 1, \<^verbatim>\<open>get_real_ip\<close> returns the sentinel
  \<^verbatim>\<open>'0.0.0.0'\<close> or, unchanged, one of its candidate strings (the chain-derived entry, the
  \<^verbatim>\<open>X-Real-IP\<close> value, the peer address).  It is therefore a syntactically valid address
  whenever every candidate that is present and not empty is one.
\<close>

theorem get_real_ip_verbatim:
  assumes "1 \<le> x_for"
  shows "\<exists>ip st'. get_real_ip request x_for st = Inr (ip, st')
           \<and> (ip = ''0.0.0.0''
                \<or> Some ip \<in> {spec_chain_candidate request x_for, req_headers request ''X-Real-IP'',
                               req_remote_addr request})
           \<and> ((\<forall>c \<in> {spec_chain_candidate request x_for, req_headers request ''X-Real-IP'',
                        req_remote_addr request}.
                   \<forall>s. c = Some s \<and> s \<noteq> [] \<longrightarrow> valid_address s)
                \<longrightarrow> valid_address ip)"
proof -
  let ?a = "spec_chain_candidate request x_for"
  let ?b = "req_headers request ''X-Real-IP''"
  let ?c = "req_remote_addr request"
  let ?ip = "spec_first_non_empty [?a, ?b, ?c]"
  obtain st' where g: "get_real_ip request x_for st = Inr (?ip, st')"
    using get_real_ip_result[OF assms, of request st] by blast
  have v: "(\<forall>c \<in> {?a, ?b, ?c}. \<forall>s. c = Some s \<and> s \<noteq> [] \<longrightarrow> valid_address s) \<longrightarrow> valid_address ?ip"
    using spec_first_non_empty_cases[of ?a ?b ?c] valid_address_sentinel by auto
  have m: "?ip = ''0.0.0.0'' \<or> Some ?ip \<in> {?a, ?b, ?c}"
    using spec_first_non_empty_cases[of ?a ?b ?c] by blast
  show ?thesis
    by (rule exI[of _ ?ip], rule exI[of _ st']) (use g v m in blast)
qed

theorem get_real_ip_verbatim_witness:
  "\<exists>ip st'. get_real_ip (request_with [(''X-Forwarded-For'', ''10.0.0.1, 203.0.113.55'')]
                           (Some ''127.0.0.1'')) 1 initial_state = Inr (ip, st')
            \<and> valid_address ip"
proof -
  let ?req = "request_with [(''X-Forwarded-For'', ''10.0.0.1, 203.0.113.55'')] (Some ''127.0.0.1'')"
  have c: "spec_chain_candidate ?req 1 = Some ''203.0.113.55''"
    by (simp add: request_with_def spec_chain_candidate_def strip_def py_isspace_def Let_def)
  have r: "req_headers ?req ''X-Real-IP'' = None" and p: "req_remote_addr ?req = Some ''127.0.0.1''"
    by (simp_all add: request_with_def)
  have v: "valid_address ''203.0.113.55''" "valid_address ''127.0.0.1''"
    by (simp_all add: valid_address_def ipaddress_defs)
  have one: "(1::int) \<le> 1" by simp
  have hyp: "\<forall>c \<in> {spec_chain_candidate ?req 1, req_headers ?req ''X-Real-IP'', req_remote_addr ?req}.
               \<forall>s. c = Some s \<and> s \<noteq> [] \<longrightarrow> valid_address s"
    unfolding c r p using v by simp
  from get_real_ip_verbatim [OF one, of ?req initial_state]
  obtain ip st' where "get_real_ip ?req 1 initial_state = Inr (ip, st')"
    and "(\<forall>c \<in> {spec_chain_candidate ?req 1, req_headers ?req ''X-Real-IP'', req_remote_addr ?req}.
               \<forall>s. c = Some s \<and> s \<noteq> [] \<longrightarrow> valid_address s) \<longrightarrow> valid_address ip"
    by (elim exE conjE)
  with hyp show ?thesis by blast
qed

text \<open>
  Claim C10.  The candidates are compared as strings, without normalising the addresses they
  denote: when two candidates parse to the same address but differ as text, the warning for
  that pair is still handed to the logger, and a non-empty chain-derived entry is returned
  exactly as it stands in the header (stripped of surrounding whitespace).  Stated for a trust
  depth of at least 1.
\<close>

theorem get_real_ip_no_normalization:
  assumes "1 \<le> x_for"
  shows "\<exists>ip st'. get_real_ip request x_for st = Inr (ip, st')
           \<and> (spec_chain_candidate request x_for = Some ff \<and> ff \<noteq> [] \<longrightarrow> ip = ff)
           \<and> (spec_chain_candidate request x_for = Some ff \<and> req_headers request ''X-Real-IP'' = Some r
                \<and> ip_address ff = Some a1 \<and> ip_address r = Some a1 \<and> ff \<noteq> r
               \<longrightarrow> (WARNING, msg_real_ip_vs_xff, [r, ff]) \<in> set (emitted st st'))
           \<and> (spec_chain_candidate request x_for = Some ff \<and> req_remote_addr request = Some p
                \<and> ip_address ff = Some a2 \<and> ip_address p = Some a2 \<and> ff \<noteq> p
               \<longrightarrow> (WARNING, msg_wsgi_vs_xff, [p, ff]) \<in> set (emitted st st'))
           \<and> (req_headers request ''X-Real-IP'' = Some r \<and> req_remote_addr request = Some p
                \<and> ip_address r = Some a3 \<and> ip_address p = Some a3 \<and> r \<noteq> p
               \<longrightarrow> (WARNING, msg_wsgi_vs_real_ip, [p, r]) \<in> set (emitted st st'))"
proof -
  let ?a = "spec_chain_candidate request x_for"
  let ?b = "req_headers request ''X-Real-IP''"
  let ?c = "req_remote_addr request"
  let ?ip = "spec_first_non_empty [?a, ?b, ?c]"
  obtain st' where g: "get_real_ip request x_for st = Inr (?ip, st')"
    and w: "filter is_warning (emitted st st') = spec_warnings ?a ?b ?c"
    using get_real_ip_result[OF assms, of request st] by blast
  have sub: "set (spec_warnings ?a ?b ?c) \<subseteq> set (emitted st st')"
    using w[symmetric] by simp
  have ne: "s \<noteq> []" if "ip_address s = Some a" for s a
    using that ip_address_empty by auto
  have 1: "?a = Some ff \<and> ff \<noteq> [] \<longrightarrow> ?ip = ff"
    by (simp add: or_str_first[symmetric] or_str_def)
  have 2: "?a = Some ff \<and> ?b = Some r \<and> ip_address ff = Some a1 \<and> ip_address r = Some a1 \<and> ff \<noteq> r
               \<longrightarrow> (WARNING, msg_real_ip_vs_xff, [r, ff]) \<in> set (spec_warnings ?a ?b ?c)"
    using ne by (auto simp: spec_warnings_def spec_pair_warning_def truthy_def py_str_def)
  have 3: "?a = Some ff \<and> ?c = Some p \<and> ip_address ff = Some a2 \<and> ip_address p = Some a2 \<and> ff \<noteq> p
               \<longrightarrow> (WARNING, msg_wsgi_vs_xff, [p, ff]) \<in> set (spec_warnings ?a ?b ?c)"
    using ne by (auto simp: spec_warnings_def spec_pair_warning_def truthy_def py_str_def)
  have 4: "?b = Some r \<and> ?c = Some p \<and> ip_address r = Some a3 \<and> ip_address p = Some a3 \<and> r \<noteq> p
               \<longrightarrow> (WARNING, msg_wsgi_vs_real_ip, [p, r]) \<in> set (spec_warnings ?a ?b ?c)"
    using ne by (auto simp: spec_warnings_def spec_pair_warning_def truthy_def py_str_def)
  show ?thesis
    by (rule exI[of _ ?ip], rule exI[of _ st']) (use g sub 1 2 3 4 in blast)
qed

theorem get_real_ip_no_normalization_witness:
  "ip_address ''2001:db8::1'' = ip_address ''2001:0db8::1''
   \<and> ip_address ''2001:db8::1'' = ip_address ''2001:db8:0::1''
   \<and> (\<exists>st'. get_real_ip (request_with [(''X-Forwarded-For'', ''10.0.0.1,  2001:db8::1 ''),
                                         (''X-Real-IP'', ''2001:0db8::1'')]
                            (Some ''2001:db8:0::1'')) 1 initial_state = Inr (''2001:db8::1'', st')
          \<and> emitted initial_state st' =
               [(WARNING, msg_real_ip_vs_xff, [''2001:0db8::1'', ''2001:db8::1'']),
                (WARNING, msg_wsgi_vs_xff, [''2001:db8:0::1'', ''2001:db8::1'']),
                (WARNING, msg_wsgi_vs_real_ip, [''2001:db8:0::1'', ''2001:0db8::1''])])"
proof -
  let ?req = "request_with [(''X-Forwarded-For'', ''10.0.0.1,  2001:db8::1 ''),
                            (''X-Real-IP'', ''2001:0db8::1'')] (Some ''2001:db8:0::1'')"
  let ?A = "IPv6Address 0x20010db8000000000000000000000001 None"
  have a: "ip_address ''2001:db8::1'' = Some ?A" "ip_address ''2001:0db8::1'' = Some ?A"
      "ip_address ''2001:db8:0::1'' = Some ?A"
    by (simp_all add: ipaddress_defs Let_def)
  have c: "spec_chain_candidate ?req 1 = Some ''2001:db8::1''"
    by (simp add: request_with_def spec_chain_candidate_def strip_def py_isspace_def Let_def)
  have r: "req_headers ?req ''X-Real-IP'' = Some ''2001:0db8::1''"
    and p: "req_remote_addr ?req = Some ''2001:db8:0::1''"
    by (simp_all add: request_with_def)
  have one: "(1::int) \<le> 1" by simp
  from get_real_ip_no_normalization
         [OF one, of ?req initial_state "''2001:db8::1''" "''2001:0db8::1''" ?A "''2001:db8:0::1''" ?A ?A]
  obtain ip st' where g: "get_real_ip ?req 1 initial_state = Inr (ip, st')"
    and i: "ip = ''2001:db8::1''"
    and w: "(WARNING, msg_real_ip_vs_xff, [''2001:0db8::1'', ''2001:db8::1'']) \<in> set (emitted initial_state st')"
    unfolding c r p a by auto
  have e: "emitted initial_state (snd (cross_check (Some ''2001:db8::1'') (Some ''2001:0db8::1'')
              (Some ''2001:db8:0::1'') initial_state)) =
               [(WARNING, msg_real_ip_vs_xff, [''2001:0db8::1'', ''2001:db8::1'']),
                (WARNING, msg_wsgi_vs_xff, [''2001:db8:0::1'', ''2001:db8::1'']),
                (WARNING, msg_wsgi_vs_real_ip, [''2001:db8:0::1'', ''2001:0db8::1''])]"
    by (simp add: emitted_cross_check spec_warnings_def spec_pair_warning_def truthy_def py_str_def)
  have g2: "get_real_ip ?req 1 initial_state =
      Inr (cross_check (Some ''2001:db8::1'') (Some ''2001:0db8::1'') (Some ''2001:db8:0::1'') initial_state)"
    by (simp add: get_real_ip_def select_forwarded_for_def forwarded_for_entries_def request_with_def
        py_index_def strip_def py_isspace_def truthy_def py_str_def Let_def)
  have "st' = snd (cross_check (Some ''2001:db8::1'') (Some ''2001:0db8::1'') (Some ''2001:db8:0::1'') initial_state)"
    using g g2 by (simp add: prod_eq_iff)
  with e g i have "get_real_ip ?req 1 initial_state = Inr (''2001:db8::1'', st')
          \<and> emitted initial_state st' =
               [(WARNING, msg_real_ip_vs_xff, [''2001:0db8::1'', ''2001:db8::1'']),
                (WARNING, msg_wsgi_vs_xff, [''2001:db8:0::1'', ''2001:db8::1'']),
                (WARNING, msg_wsgi_vs_real_ip, [''2001:db8:0::1'', ''2001:0db8::1''])]"
    by simp
  then have ex: "\<exists>st'. get_real_ip ?req 1 initial_state = Inr (''2001:db8::1'', st')
          \<and> emitted initial_state st' =
               [(WARNING, msg_real_ip_vs_xff, [''2001:0db8::1'', ''2001:db8::1'']),
                (WARNING, msg_wsgi_vs_xff, [''2001:db8:0::1'', ''2001:db8::1'']),
                (WARNING, msg_wsgi_vs_real_ip, [''2001:db8:0::1'', ''2001:0db8::1''])]"
    by - (rule exI[of _ st'], assumption)
  have e1: "ip_address ''2001:db8::1'' = ip_address ''2001:0db8::1''"
    and e2: "ip_address ''2001:db8::1'' = ip_address ''2001:db8:0::1''"
    by (simp_all only: a)
  show ?thesis
    by (rule conjI[OF e1 conjI[OF e2 ex]])
qed


section \<open>Properties of \<^verbatim>\<open>get_network\<close> and \<^verbatim>\<open>too_many_requests\<close>\<close>

lemma bit_ip_int_from_prefix:
  "bit (ip_int_from_prefix p :: 'a::len word) i \<longleftrightarrow> i < LENGTH('a) \<and> LENGTH('a) \<le> p + i"
  by (auto simp: ip_int_from_prefix_def bit_simps)

lemma bit_masked:
  "bit (ip AND (ip_int_from_prefix p :: 'a::len word)) i \<longleftrightarrow> bit ip i \<and> LENGTH('a) - p \<le> i"
  by (auto simp: bit_and_iff bit_ip_int_from_prefix dest: bit_imp_le_length)

lemma ip_network_v4:
  assumes "0 \<le> prefix" and "prefix \<le> 32"
  shows "ip_network (IPv4Address ip) prefix False =
           Inr (IPv4Network (ip AND ip_int_from_prefix (nat prefix)) (nat prefix))"
  using assms by (simp add: ip_network_def Let_def)

lemma ip_network_v6:
  assumes "0 \<le> prefix" and "prefix \<le> 128"
  shows "ip_network (IPv6Address ip scope_id) prefix False =
           Inr (IPv6Network (ip AND ip_int_from_prefix (nat prefix))
                  (if ip AND ip_int_from_prefix (nat prefix) = ip then scope_id else None) (nat prefix))"
  using assms by (simp add: ip_network_def Let_def)

lemma ip_network_out_of_range:
  "\<not> (0 \<le> prefix \<and> prefix \<le> 32) \<Longrightarrow> ip_network (IPv4Address ip) prefix strict = Inl ValueError"
  "\<not> (0 \<le> prefix \<and> prefix \<le> 128) \<Longrightarrow> ip_network (IPv6Address ip6 scope_id) prefix strict = Inl ValueError"
  by (simp_all add: ip_network_def)

text \<open>
  Claim C4.  For a configuration whose prefix lengths are in range (\<open>0..32\<close> for IPv4,
  \<open>0..128\<close> for IPv6), \<^verbatim>\<open>get_network\<close> succeeds on every address object and returns a
  network.  So, for a string, building the network can only fail where the string is not a
  parseable address: whenever the string is a syntactically valid address, parsing it and
  calling \<^verbatim>\<open>get_network\<close> gives a network.
\<close>

theorem get_network_succeeds:
  assumes "0 \<le> real_ip_ipv4_prefix cfg" and "real_ip_ipv4_prefix cfg \<le> 32"
    and "0 \<le> real_ip_ipv6_prefix cfg" and "real_ip_ipv6_prefix cfg \<le> 128"
  shows "(\<exists>network. get_network real_ip cfg = Inr network)
         \<and> (valid_address s \<longrightarrow>
               (\<exists>a network. ip_address s = Some a \<and> get_network a cfg = Inr network))"
proof -
  have ok: "\<exists>network. get_network a cfg = Inr network" for a
  proof (cases a)
    case (IPv4Address ip)
    then show ?thesis
      using ip_network_v4[OF assms(1,2), of ip] by (simp add: get_network_def version_def)
  next
    case (IPv6Address ip scope_id)
    then show ?thesis
      using ip_network_v6[OF assms(3,4), of ip scope_id] by (simp add: get_network_def version_def)
  qed
  then show ?thesis
    by (auto simp: valid_address_def)
qed

theorem get_network_succeeds_witness:
  "(\<exists>network. get_network (IPv4Address 0xCB007137)
        \<lparr>real_ip_ipv4_prefix = 32, real_ip_ipv6_prefix = 48, real_ip_x_for = 1\<rparr> = Inr network)
   \<and> (\<exists>a network. ip_address ''2001:db8::1'' = Some a
        \<and> get_network a \<lparr>real_ip_ipv4_prefix = 32, real_ip_ipv6_prefix = 48, real_ip_x_for = 1\<rparr>
            = Inr network)"
proof -
  have v: "valid_address ''2001:db8::1''"
    by (simp add: valid_address_def ipaddress_defs Let_def)
  show ?thesis
    using get_network_succeeds
            [of "\<lparr>real_ip_ipv4_prefix = 32, real_ip_ipv6_prefix = 48, real_ip_x_for = 1\<rparr>"
                "IPv4Address 0xCB007137" "''2001:db8::1''"] v
    by simp
qed

lemma and_not_mask_word: "(w :: 'a::len word) AND NOT (mask n) = push_bit n (drop_bit n w)"
  by (rule bit_eqI) (auto simp: bit_simps)

lemmas format_defs =
  compressed_def network_address_def prefixlen_def str_address_def ipv4_string_from_ip_int_def
  ipv6_string_from_ip_int_def digit_char_def compress_hextets_def

lemmas get_network_defs =
  get_network_def version_def ip_network_def ip_int_from_prefix_def Let_def and_not_mask_word

lemma get_network_general:
  assumes "0 \<le> real_ip_ipv4_prefix cfg" and "real_ip_ipv4_prefix cfg \<le> 32"
    and "0 \<le> real_ip_ipv6_prefix cfg" and "real_ip_ipv6_prefix cfg \<le> 128"
  shows "\<exists>network. get_network real_ip cfg = Inr network
           \<and> prefixlen network =
               nat (if version real_ip = 6 then real_ip_ipv6_prefix cfg else real_ip_ipv4_prefix cfg)
           \<and> version (network_address network) = version real_ip
           \<and> (\<forall>i. bit (address_int (network_address network)) i \<longleftrightarrow>
                    bit (address_int real_ip) i \<and> max_prefixlen real_ip - prefixlen network \<le> i)"
proof (cases real_ip)
  case (IPv4Address ip)
  let ?p = "nat (real_ip_ipv4_prefix cfg)"
  let ?n = "IPv4Network (ip AND ip_int_from_prefix ?p) ?p"
  have g: "get_network real_ip cfg = Inr ?n"
    using IPv4Address ip_network_v4[OF assms(1,2), of ip] by (simp add: get_network_def version_def)
  have b: "bit (address_int (network_address ?n)) i \<longleftrightarrow> bit (address_int real_ip) i \<and> max_prefixlen real_ip - prefixlen ?n \<le> i" for i
    using IPv4Address bit_masked[of ip ?p i]
    by (simp add: address_int_def network_address_def max_prefixlen_def prefixlen_def bit_uint_iff)
  show ?thesis
    by (rule exI[of _ ?n]) (use IPv4Address g b in \<open>simp add: prefixlen_def network_address_def version_def\<close>)
next
  case (IPv6Address ip scope_id)
  let ?p = "nat (real_ip_ipv6_prefix cfg)"
  let ?n = "IPv6Network (ip AND ip_int_from_prefix ?p)
                  (if ip AND ip_int_from_prefix ?p = ip then scope_id else None) ?p"
  have g: "get_network real_ip cfg = Inr ?n"
    using IPv6Address ip_network_v6[OF assms(3,4), of ip scope_id] by (simp add: get_network_def version_def)
  have b: "bit (address_int (network_address ?n)) i \<longleftrightarrow> bit (address_int real_ip) i \<and> max_prefixlen real_ip - prefixlen ?n \<le> i" for i
    using IPv6Address bit_masked[of ip ?p i]
    by (simp add: address_int_def network_address_def max_prefixlen_def prefixlen_def bit_uint_iff)
  show ?thesis
    by (rule exI[of _ ?n]) (use IPv6Address g b in \<open>simp add: prefixlen_def network_address_def version_def\<close>)
qed

text \<open>
  Claim C7.  With prefix lengths in range, \<^verbatim>\<open>get_network\<close> returns a network of the
  address's own version whose prefix length is \<^verbatim>\<open>ipv6_prefix\<close> when the address version is
  6 and \<^verbatim>\<open>ipv4_prefix\<close> otherwise, and whose network address is the given address with the
  host bits cleared: bit \<open>i\<close> of the network address is bit \<open>i\<close> of the address when
  \<open>i\<close> is one of the upper prefix-length bits, and is not set below.  In particular
  \<^verbatim>\<open>203.0.113.55\<close> with \<^verbatim>\<open>ipv4_prefix = 24\<close> gives \<^verbatim>\<open>203.0.113.0/24\<close>, and
  \<^verbatim>\<open>2001:db8::1\<close> with \<^verbatim>\<open>ipv6_prefix = 48\<close> gives \<^verbatim>\<open>2001:db8::/48\<close>.
\<close>

theorem get_network_masks:
  "(0 \<le> real_ip_ipv4_prefix cfg \<and> real_ip_ipv4_prefix cfg \<le> 32
      \<and> 0 \<le> real_ip_ipv6_prefix cfg \<and> real_ip_ipv6_prefix cfg \<le> 128
    \<longrightarrow> (\<exists>network. get_network real_ip cfg = Inr network
           \<and> prefixlen network =
               nat (if version real_ip = 6 then real_ip_ipv6_prefix cfg else real_ip_ipv4_prefix cfg)
           \<and> version (network_address network) = version real_ip
           \<and> (\<forall>i. bit (address_int (network_address network)) i \<longleftrightarrow>
                    bit (address_int real_ip) i \<and> max_prefixlen real_ip - prefixlen network \<le> i)))
   \<and> (ip_address ''203.0.113.55'' = Some (IPv4Address 0xCB007137)
      \<and> get_network (IPv4Address 0xCB007137)
            \<lparr>real_ip_ipv4_prefix = 24, real_ip_ipv6_prefix = p6, real_ip_x_for = x\<rparr>
          = Inr (IPv4Network 0xCB007100 24)
      \<and> compressed (IPv4Network 0xCB007100 24) = ''203.0.113.0/24'')
   \<and> (ip_address ''2001:db8::1'' = Some (IPv6Address 0x20010db8000000000000000000000001 None)
      \<and> get_network (IPv6Address 0x20010db8000000000000000000000001 None)
            \<lparr>real_ip_ipv4_prefix = p4, real_ip_ipv6_prefix = 48, real_ip_x_for = x\<rparr>
          = Inr (IPv6Network 0x20010db8000000000000000000000000 None 48)
      \<and> compressed (IPv6Network 0x20010db8000000000000000000000000 None 48) = ''2001:db8::/48'')"
proof (intro conjI impI)
  assume "0 \<le> real_ip_ipv4_prefix cfg \<and> real_ip_ipv4_prefix cfg \<le> 32
      \<and> 0 \<le> real_ip_ipv6_prefix cfg \<and> real_ip_ipv6_prefix cfg \<le> 128"
  then show "\<exists>network. get_network real_ip cfg = Inr network
           \<and> prefixlen network =
               nat (if version real_ip = 6 then real_ip_ipv6_prefix cfg else real_ip_ipv4_prefix cfg)
           \<and> version (network_address network) = version real_ip
           \<and> (\<forall>i. bit (address_int (network_address network)) i \<longleftrightarrow>
                    bit (address_int real_ip) i \<and> max_prefixlen real_ip - prefixlen network \<le> i)"
    using get_network_general[of cfg real_ip] by blast
next
  show "ip_address ''203.0.113.55'' = Some (IPv4Address 0xCB007137)"
    by (simp add: ipaddress_defs)
  show "get_network (IPv4Address 0xCB007137)
            \<lparr>real_ip_ipv4_prefix = 24, real_ip_ipv6_prefix = p6, real_ip_x_for = x\<rparr>
          = Inr (IPv4Network 0xCB007100 24)"
    by (simp add: get_network_defs)
  show "compressed (IPv4Network 0xCB007100 24) = ''203.0.113.0/24''"
    by (simp add: format_defs)
  show "ip_address ''2001:db8::1'' = Some (IPv6Address 0x20010db8000000000000000000000001 None)"
    by (simp add: ipaddress_defs Let_def)
  show "get_network (IPv6Address 0x20010db8000000000000000000000001 None)
            \<lparr>real_ip_ipv4_prefix = p4, real_ip_ipv6_prefix = 48, real_ip_x_for = x\<rparr>
          = Inr (IPv6Network 0x20010db8000000000000000000000000 None 48)"
    by (simp add: get_network_defs)
  show "compressed (IPv6Network 0x20010db8000000000000000000000000 None 48) = ''2001:db8::/48''"
    by (simp add: format_defs)
qed

theorem get_network_masks_witness:
  "\<exists>network. get_network (IPv6Address 0x20010db8000000000000000000000001 None)
                  \<lparr>real_ip_ipv4_prefix = 24, real_ip_ipv6_prefix = 48, real_ip_x_for = 1\<rparr> = Inr network
      \<and> prefixlen network = 48
      \<and> (\<forall>i. bit (address_int (network_address network)) i \<longleftrightarrow>
               bit (0x20010db8000000000000000000000001 :: int) i \<and> 80 \<le> i)"
proof -
  let ?cfg = "\<lparr>real_ip_ipv4_prefix = 24, real_ip_ipv6_prefix = 48, real_ip_x_for = 1\<rparr>"
  let ?a = "IPv6Address 0x20010db8000000000000000000000001 None"
  have r: "0 \<le> real_ip_ipv4_prefix ?cfg \<and> real_ip_ipv4_prefix ?cfg \<le> 32
      \<and> 0 \<le> real_ip_ipv6_prefix ?cfg \<and> real_ip_ipv6_prefix ?cfg \<le> 128"
    by simp
  from get_network_masks [of ?cfg ?a 48 1 24, THEN conjunct1, THEN mp, OF r]
  obtain network where g: "get_network ?a ?cfg = Inr network"
    and p: "prefixlen network =
              nat (if version ?a = 6 then real_ip_ipv6_prefix ?cfg else real_ip_ipv4_prefix ?cfg)"
    and b: "\<forall>i. bit (address_int (network_address network)) i \<longleftrightarrow>
                 bit (address_int ?a) i \<and> max_prefixlen ?a - prefixlen network \<le> i"
    by (elim exE conjE)
  have p': "prefixlen network = 48"
    using p by (simp add: version_def)
  have b': "\<forall>i. bit (address_int (network_address network)) i \<longleftrightarrow>
               bit (0x20010db8000000000000000000000001 :: int) i \<and> 80 \<le> i"
    using b unfolding p' by (simp add: address_int_def max_prefixlen_def)
  show ?thesis
    by (rule exI[of _ network]) (simp only: g p' b' simp_thms)
qed

text \<open>
  Claim C9.  For every network, reason and state, \<^verbatim>\<open>too_many_requests\<close> returns the response
  with status code 429 and body \<^verbatim>\<open>Too Many Requests\<close>, and hands exactly one record to the
  logger, at debug severity, whose line is \<^verbatim>\<open>BLOCK\<close>, the compressed text of the network, a
  colon and the reason; \<^verbatim>\<open>_logged_errors\<close> is left alone.  The function is total: there is no
  input on which it raises.  The compressed text of \<^verbatim>\<open>2001:db8::/48\<close> and of
  \<^verbatim>\<open>203.0.113.0/24\<close> is as written here.
\<close>

theorem too_many_requests_response:
  "status_code (fst (too_many_requests network log_msg st)) = 429
   \<and> body (fst (too_many_requests network log_msg st)) = ''Too Many Requests''
   \<and> emitted st (snd (too_many_requests network log_msg st)) =
        [(DEBUG, ''BLOCK %s: %s'', [compressed network, log_msg])]
   \<and> map getMessage (emitted st (snd (too_many_requests network log_msg st))) =
        [Some (''BLOCK '' @ compressed network @ '': '' @ log_msg)]
   \<and> logged_errors (snd (too_many_requests network log_msg st)) = logged_errors st
   \<and> compressed (IPv6Network 0x20010db8000000000000000000000000 None 48) = ''2001:db8::/48''
   \<and> compressed (IPv4Network 0xCB007100 24) = ''203.0.113.0/24''"
proof -
  have e: "emitted st (snd (too_many_requests network log_msg st)) =
        [(DEBUG, ''BLOCK %s: %s'', [compressed network, log_msg])]"
    by (rule emitted_append) (simp add: too_many_requests_def logger_logger_log)
  have m: "getMessage (DEBUG, ''BLOCK %s: %s'', [c, log_msg]) = Some (''BLOCK '' @ c @ '': '' @ log_msg)" for c
    by (simp add: getMessage_def)
  have c6: "compressed (IPv6Network 0x20010db8000000000000000000000000 None 48) = ''2001:db8::/48''"
    by (simp add: format_defs)
  have c4: "compressed (IPv4Network 0xCB007100 24) = ''203.0.113.0/24''"
    by (simp add: format_defs)
  show ?thesis
    unfolding e using m c4 c6
    by (simp add: too_many_requests_def logged_errors_logger_log)
qed


end
